theory Spec2Isabelle
  imports Complex_Main "HOL-Library.AList"
begin

section \<open>Python exceptions\<close>

text \<open>
  Every \<^verbatim>\<open>raise\<close> of the source is a value of this type; a function that can raise
  returns \<open>py_error + 'a\<close> with \<open>Inl\<close> the exception. Messages are not modelled.
\<close>

datatype py_error =
    TypeError | ValueError | KeyError | NameError | IndexError | AttributeError
  | TimeoutError | RuntimeError | RecursionError | ImportError

section \<open>Task scheduler (foglamp/core/scheduler.py)\<close>

subsection \<open>Data\<close>

datatype ScheduleType = TIMED | INTERVAL | MANUAL | STARTUP

text \<open>
  The named tuple \<^verbatim>\<open>_Schedule\<close>. Only the fields read by \<^verbatim>\<open>stop\<close>,
  \<^verbatim>\<open>_on_task_completion\<close> and \<^verbatim>\<open>_schedule_next_task\<close> are kept;
  \<^verbatim>\<open>repeat_seconds\<close> is an integer number of seconds or \<^verbatim>\<open>None\<close>.
\<close>

record Schedule =
  schedule_id :: string
  schedule_name :: string
  schedule_type :: ScheduleType
  repeat_seconds :: "int option"
  exclusive :: bool
  scheduled_process_name :: string

text \<open>
  An asyncio subprocess handle. \<open>exited\<close> says that the event loop has already seen the
  process exit; \<^verbatim>\<open>terminate()\<close> on such a handle raises \<^verbatim>\<open>ProcessLookupError\<close>.
\<close>

record Process =
  pid :: nat
  exited :: bool

text \<open>
  \<^verbatim>\<open>_ScheduleExecution\<close>: times are seconds since the epoch (the floats of
  \<^verbatim>\<open>time.time()\<close>, modelled as exact rationals); \<open>task_processes\<close> is the dictionary
  from task id to process, in insertion order.
\<close>

record ScheduleExecution =
  next_start_time :: "rat option"
  task_processes :: "(string \<times> Process) list"

text \<open>What the scheduler does to the outside world, in the order it does it.\<close>

datatype sched_event =
    MainSleepCancelled
  | SentTERM string string nat
  | Slept rat

text \<open>
  The instance variables of \<^verbatim>\<open>Scheduler\<close>. \<open>attr_next_start_time\<close> is the attribute
  \<^verbatim>\<open>self.next_start_time\<close> that \<^verbatim>\<open>_schedule_next_task\<close> assigns on the scheduler
  object itself (\<open>None\<close>: not assigned yet, \<open>Some None\<close>: assigned \<^verbatim>\<open>None\<close>).
  \<open>main_sleep_task\<close> says whether the main loop is sleeping on a cancellable future.
\<close>

record Scheduler =
  start_time :: "rat option"
  paused :: bool
  scheduled_processes :: "(string \<times> string list) list"
  schedules :: "(string \<times> Schedule) list"
  schedule_executions :: "(string \<times> ScheduleExecution) list"
  active_task_count :: int
  main_sleep_task :: bool
  attr_next_start_time :: "rat option option"
  sched_trace :: "sched_event list"

subsection \<open>\<^verbatim>\<open>_resume_check_schedules\<close>\<close>


subsection \<open>\<^verbatim>\<open>_schedule_next_task\<close>\<close>

text \<open>
  \<open>local_add t d\<close> stands for the wall-clock arithmetic of the TIMED branch,
  \<^verbatim>\<open>time.mktime((datetime.fromtimestamp(t) + timedelta(seconds=d)).timetuple())\<close>,
  which depends on the time zone of the host; \<open>now\<close> is what \<^verbatim>\<open>time.time()\<close> returns.
  The result is the returned boolean and the scheduler afterwards, or the exception.
\<close>

definition schedule_next_task ::
  "(rat \<Rightarrow> int \<Rightarrow> rat) \<Rightarrow> rat \<Rightarrow> Scheduler \<Rightarrow> Schedule \<Rightarrow> py_error + (bool \<times> Scheduler)" where
  "schedule_next_task local_add now s schedule =
     (case repeat_seconds schedule of
        None \<Rightarrow> Inr (False, s\<lparr>attr_next_start_time := Some None\<rparr>)
      | Some advance_seconds \<Rightarrow>
          if paused s then Inr (False, s\<lparr>attr_next_start_time := Some None\<rparr>)
          else
            (case map_of (schedule_executions s) (schedule_id schedule) of
               None \<Rightarrow> Inl KeyError
             | Some schedule_execution \<Rightarrow>
                 (case next_start_time schedule_execution of
                    None \<Rightarrow> Inl TypeError
                  | Some nst \<Rightarrow>
                      let advance_seconds' =
                            (if exclusive schedule \<and> advance_seconds \<noteq> 0
                             then advance_seconds + \<lceil>(now - nst) / of_int advance_seconds\<rceil>
                             else advance_seconds);
                          nst' =
                            (if schedule_type schedule = TIMED then local_add nst advance_seconds'
                             else nst + of_int advance_seconds')
                      in Inr (True,
                           s\<lparr>schedule_executions :=
                               AList.update (schedule_id schedule)
                                 (schedule_execution\<lparr>next_start_time := Some nst'\<rparr>)
                                 (schedule_executions s)\<rparr>))))"

subsection \<open>\<^verbatim>\<open>_on_task_completion\<close>\<close>


subsection \<open>\<^verbatim>\<open>stop\<close>\<close>









text \<open>Example state: an exclusive interval schedule of 10 s whose fire time was 1000.\<close>

definition ex_schedule :: Schedule where
  "ex_schedule = \<lparr>schedule_id = ''s1'', schedule_name = ''purge'', schedule_type = INTERVAL,
     repeat_seconds = Some 10, exclusive = True, scheduled_process_name = ''purge''\<rparr>"

definition ex_scheduler :: "(string \<times> Process) list \<Rightarrow> int \<Rightarrow> Scheduler" where
  "ex_scheduler procs n = \<lparr>start_time = Some 900, paused = False,
     scheduled_processes = [(''purge'', [''python3'', ''-m'', ''purge''])],
     schedules = [(''s1'', ex_schedule)],
     schedule_executions = [(''s1'', \<lparr>next_start_time = Some 1000, task_processes = procs\<rparr>)],
     active_task_count = n, main_sleep_task = True, attr_next_start_time = None,
     sched_trace = []\<rparr>"


section \<open>Configuration manager (foglamp/common/configuration_manager.py)\<close>

subsection \<open>Python values\<close>

text \<open>
  The values that flow through the configuration manager are what \<^verbatim>\<open>json.loads\<close> yields:
  \<^verbatim>\<open>None\<close>, booleans, integers, strings, lists, and dictionaries with string keys. A
  dictionary is an association list in insertion order; a Python dictionary never holds a
  key twice, and lookup, assignment and \<^verbatim>\<open>pop\<close> are \<open>map_of\<close>, \<open>AList.update\<close>
  (in place, or appended when the key is new) and \<open>AList.delete\<close>. Dictionary keys are
  strings by construction, so the source's \<^verbatim>\<open>type(item_name) is not str\<close> and
  \<^verbatim>\<open>type(entry_name) is not str\<close> checks have no branch here. Non-integer JSON numbers
  are not modelled.
\<close>

datatype json =
    JNull
  | JBool bool
  | JInt int
  | JStr string
  | JList "json list"
  | JDict "(string \<times> json) list"

text \<open>Python's \<^verbatim>\<open>d[k]\<close>: \<^verbatim>\<open>KeyError\<close> when the key is missing, \<^verbatim>\<open>TypeError\<close> when
  \<open>d\<close> is not subscriptable by a string key.\<close>

definition subscript :: "json \<Rightarrow> string \<Rightarrow> py_error + json" where
  "subscript d k =
     (case d of
        JDict kvs \<Rightarrow> (case map_of kvs k of None \<Rightarrow> Inl KeyError | Some v \<Rightarrow> Inr v)
      | _ \<Rightarrow> Inl TypeError)"

text \<open>
  \<^verbatim>\<open>str.lower()\<close>. Characters are bytes here; the ASCII capitals are mapped and every
  other byte is left alone. Python also maps non-ASCII capitals, none of them to a letter
  of \<^verbatim>\<open>true\<close> or \<^verbatim>\<open>false\<close>, which is all the source compares a lowered string with.
\<close>

definition lower_char :: "char \<Rightarrow> char" where
  "lower_char c =
     (case map_of (zip ''ABCDEFGHIJKLMNOPQRSTUVWXYZ'' ''abcdefghijklmnopqrstuvwxyz'') c of
        None \<Rightarrow> c
      | Some d \<Rightarrow> d)"

definition lower :: "string \<Rightarrow> string" where
  "lower s = map lower_char s"

text \<open>
  Python's \<^verbatim>\<open>==\<close> on these values: a boolean equals the integer 0 or 1 it stands for,
  lists are equal elementwise, dictionaries are equal as mappings (whatever the order of
  their keys).
\<close>

function py_eq :: "json \<Rightarrow> json \<Rightarrow> bool" where
  "py_eq JNull y = (y = JNull)"
| "py_eq (JBool a) y =
     (case y of JBool b \<Rightarrow> a = b | JInt j \<Rightarrow> (if a then 1 else 0) = j | _ \<Rightarrow> False)"
| "py_eq (JInt i) y =
     (case y of JInt j \<Rightarrow> i = j | JBool b \<Rightarrow> i = (if b then 1 else 0) | _ \<Rightarrow> False)"
| "py_eq (JStr s) y = (y = JStr s)"
| "py_eq (JList xs) y =
     (case y of
        JList ys \<Rightarrow> length xs = length ys \<and> list_all (\<lambda>i. py_eq (xs ! i) (ys ! i)) [0..<length xs]
      | _ \<Rightarrow> False)"
| "py_eq (JDict a) y =
     (case y of
        JDict b \<Rightarrow>
          list_all (\<lambda>k. case map_of a k of
                           None \<Rightarrow> True
                         | Some v \<Rightarrow> (case map_of b k of None \<Rightarrow> False | Some w \<Rightarrow> py_eq v w))
            (map fst a)
          \<and> list_all (\<lambda>k. map_of a k \<noteq> None) (map fst b)
      | _ \<Rightarrow> False)"
  by pat_completeness auto
termination
proof (relation "measure (\<lambda>(x, y). size x)", goal_cases)
  case 1
  show ?case by simp
next
  case (2 xs y ys i)
  then have "xs ! i \<in> set xs" by simp
  then have "size (xs ! i) \<le> size_list size xs" by (simp add: size_list_estimation')
  then show ?case by simp
next
  case (3 a y b k v w)
  then have "(k, v) \<in> set a" by (simp add: map_of_SomeD)
  then have "size v < Suc (size_list (size_prod (\<lambda>_. 0) size) a)"
    by (induction a) auto
  then show ?case by simp
qed

text \<open>Python's \<^verbatim>\<open>x in xs\<close> for a list \<open>xs\<close>.\<close>

definition py_in :: "json \<Rightarrow> json list \<Rightarrow> bool" where
  "py_in x xs = list_ex (py_eq x) xs"

text \<open>
  \<^verbatim>\<open>json.dumps(a, sort_keys=True) == json.dumps(b, sort_keys=True)\<close>: the two values have
  the same serialisation once the keys of every dictionary are sorted, that is, they are
  the same value up to the order of dictionary keys (a boolean is not a number here).
\<close>

function dumps_eq :: "json \<Rightarrow> json \<Rightarrow> bool" where
  "dumps_eq JNull y = (y = JNull)"
| "dumps_eq (JBool a) y = (y = JBool a)"
| "dumps_eq (JInt i) y = (y = JInt i)"
| "dumps_eq (JStr s) y = (y = JStr s)"
| "dumps_eq (JList xs) y =
     (case y of
        JList ys \<Rightarrow> length xs = length ys \<and> list_all (\<lambda>i. dumps_eq (xs ! i) (ys ! i)) [0..<length xs]
      | _ \<Rightarrow> False)"
| "dumps_eq (JDict a) y =
     (case y of
        JDict b \<Rightarrow>
          list_all (\<lambda>k. case map_of a k of
                           None \<Rightarrow> True
                         | Some v \<Rightarrow> (case map_of b k of None \<Rightarrow> False | Some w \<Rightarrow> dumps_eq v w))
            (map fst a)
          \<and> list_all (\<lambda>k. map_of a k \<noteq> None) (map fst b)
      | _ \<Rightarrow> False)"
  by pat_completeness auto
termination
proof (relation "measure (\<lambda>(x, y). size x)", goal_cases)
  case 1
  show ?case by simp
next
  case (2 xs y ys i)
  then have "xs ! i \<in> set xs" by simp
  then have "size (xs ! i) \<le> size_list size xs" by (simp add: size_list_estimation')
  then show ?case by simp
next
  case (3 a y b k v w)
  then have "(k, v) \<in> set a" by (simp add: map_of_SomeD)
  then have "size v < Suc (size_list (size_prod (\<lambda>_. 0) size) a)"
    by (induction a) auto
  then show ?case by simp
qed

subsection \<open>Library functions\<close>

text \<open>
  The functions of the Python library (and of \<^verbatim>\<open>foglamp.common.storage_client.utils\<close>)
  that the type validator calls are parameters of the model:
  \<^item> \<open>py_int v\<close>, \<open>py_float v\<close>, \<open>ip_address v\<close>: \<open>None\<close> when \<^verbatim>\<open>int(v)\<close>,
    \<^verbatim>\<open>float(v)\<close>, \<^verbatim>\<open>ipaddress.ip_address(v)\<close> return, otherwise the exception raised;
  \<^item> \<open>str_float v\<close>: the string \<^verbatim>\<open>str(float(v))\<close> when \<^verbatim>\<open>float(v)\<close> returns;
  \<^item> \<open>urlparse_ok v\<close>: \<^verbatim>\<open>urlparse(v)\<close> returns a result whose scheme and netloc are both
    non-empty;
  \<^item> \<open>is_json v\<close>: what \<^verbatim>\<open>Utils.is_json(v)\<close> returns, or the exception it raises;
  \<^item> \<open>import_module name\<close>: what importing the callback module \<open>name\<close> gives.
\<close>

text \<open>
  A callback module as \<^verbatim>\<open>_run_callbacks\<close> sees it: the import fails, the module has no
  \<^verbatim>\<open>run\<close>, its \<^verbatim>\<open>run\<close> is not a coroutine function, or \<^verbatim>\<open>run\<close> can be awaited and
  returns (\<open>None\<close>) or raises. What a callback does besides is outside the model.
\<close>

datatype callback_module =
    ImportFails
  | NoRunMethod
  | RunNotCoroutine
  | RunCoroutine "py_error option"

record pylib =
  py_int :: "json \<Rightarrow> py_error option"
  py_float :: "json \<Rightarrow> py_error option"
  str_float :: "json \<Rightarrow> string"
  ip_address :: "json \<Rightarrow> py_error option"
  urlparse_ok :: "json \<Rightarrow> bool"
  is_json :: "json \<Rightarrow> py_error + bool"
  import_module :: "string \<Rightarrow> callback_module"

subsection \<open>\<^verbatim>\<open>_validate_type_value\<close> and \<^verbatim>\<open>_clean\<close>\<close>

text \<open>
  What \<^verbatim>\<open>_validate_type_value\<close> returns: \<^verbatim>\<open>True\<close> or \<^verbatim>\<open>False\<close>, the address object
  that \<^verbatim>\<open>ipaddress.ip_address\<close> built, or \<^verbatim>\<open>None\<close> when control falls off the end of
  the \<^verbatim>\<open>if\<close>/\<^verbatim>\<open>elif\<close> chain.
\<close>

datatype validate_result = RBool bool | RAddress json | RNone

text \<open>The callers test the result with \<^verbatim>\<open>is False\<close>.\<close>

definition is_False :: "validate_result \<Rightarrow> bool" where
  "is_False r = (r = RBool False)"

definition str_to_bool :: "json \<Rightarrow> py_error + validate_result" where
  "str_to_bool item_val =
     (case item_val of
        JStr s \<Rightarrow> Inr (RBool (lower s = ''true'' \<or> lower s = ''false''))
      | _ \<Rightarrow> Inl AttributeError)"

definition str_to_int :: "pylib \<Rightarrow> json \<Rightarrow> py_error + validate_result" where
  "str_to_int lib item_val =
     (case py_int lib item_val of
        None \<Rightarrow> Inr (RBool True)
      | Some e \<Rightarrow> if e = ValueError then Inr (RBool False) else Inl e)"

definition str_to_float :: "pylib \<Rightarrow> json \<Rightarrow> py_error + validate_result" where
  "str_to_float lib item_val =
     (case py_float lib item_val of
        None \<Rightarrow> Inr (RBool True)
      | Some e \<Rightarrow> if e = ValueError then Inr (RBool False) else Inl e)"

definition str_to_ipaddress :: "pylib \<Rightarrow> json \<Rightarrow> py_error + validate_result" where
  "str_to_ipaddress lib item_val =
     (case ip_address lib item_val of
        None \<Rightarrow> Inr (RAddress item_val)
      | Some e \<Rightarrow> if e = ValueError then Inr (RBool False) else Inl e)"

definition validate_type_value :: "pylib \<Rightarrow> json \<Rightarrow> json \<Rightarrow> py_error + validate_result" where
  "validate_type_value lib type' value' =
     (if type' = JStr ''boolean'' then str_to_bool value'
      else if type' = JStr ''integer'' then str_to_int lib value'
      else if type' = JStr ''float'' then str_to_float lib value'
      else if type' = JStr ''JSON'' then
        (case value' of
           JDict _ \<Rightarrow> Inr (RBool True)
         | _ \<Rightarrow> (case is_json lib value' of Inl e \<Rightarrow> Inl e | Inr b \<Rightarrow> Inr (RBool b)))
      else if type' = JStr ''IPv4'' \<or> type' = JStr ''IPv6'' then str_to_ipaddress lib value'
      else if type' = JStr ''URL'' then Inr (RBool (urlparse_ok lib value'))
      else if type' = JStr ''string'' then Inr (RBool (case value' of JStr _ \<Rightarrow> True | _ \<Rightarrow> False))
      else Inr RNone)"

text \<open>
  \<^verbatim>\<open>_clean\<close>: \<^verbatim>\<open>item_val.lower()\<close> raises \<^verbatim>\<open>AttributeError\<close> on a value that is not a
  string, and \<^verbatim>\<open>float(item_val)\<close> raises what the library raises.
\<close>

definition clean :: "pylib \<Rightarrow> json \<Rightarrow> json \<Rightarrow> py_error + json" where
  "clean lib item_type item_val =
     (if item_type = JStr ''boolean'' then
        (case item_val of JStr s \<Rightarrow> Inr (JStr (lower s)) | _ \<Rightarrow> Inl AttributeError)
      else if item_type = JStr ''float'' then
        (case py_float lib item_val of
           None \<Rightarrow> Inr (JStr (str_float lib item_val))
         | Some e \<Rightarrow> Inl e)
      else Inr item_val)"

text \<open>\<^verbatim>\<open>_valid_type_strings\<close>, sorted as the source sorts it.\<close>

definition valid_type_strings :: "string list" where
  "valid_type_strings =
     [''IPv4'', ''IPv6'', ''JSON'', ''URL'', ''X509 certificate'', ''boolean'', ''enumeration'',
      ''float'', ''integer'', ''password'', ''script'', ''string'']"

text \<open>
  The check the create and update paths make on an item value:
  \<^verbatim>\<open>if self._validate_type_value(t, v) is False: raise ...\<close> does not raise.
\<close>

definition passes_validation :: "pylib \<Rightarrow> json \<Rightarrow> json \<Rightarrow> bool" where
  "passes_validation lib type' value' =
     (case validate_type_value lib type' value' of
        Inl e \<Rightarrow> False
      | Inr r \<Rightarrow> \<not> is_False r)"

text \<open>
  An instance of the library parameters for the examples. It knows strings only (any other
  value is a \<^verbatim>\<open>TypeError\<close>): an integer is an optionally signed string of digits, a float
  is an integer, an integer followed by \<^verbatim>\<open>.0\<close>, or \<^verbatim>\<open>nan\<close>, and \<^verbatim>\<open>str(float(s))\<close>
  appends \<^verbatim>\<open>.0\<close> to an integer; the other checks accept a few fixed strings.
\<close>

definition ex_is_int :: "string \<Rightarrow> bool" where
  "ex_is_int s =
     (let ds = (case s of c # r \<Rightarrow> if c = CHR ''-'' \<or> c = CHR ''+'' then r else s | [] \<Rightarrow> s)
      in ds \<noteq> [] \<and> list_all (\<lambda>c. c \<in> set ''0123456789'') ds)"

definition ex_is_float :: "string \<Rightarrow> bool" where
  "ex_is_float s =
     (ex_is_int s
      \<or> (ex_is_int (take (length s - 2) s) \<and> drop (length s - 2) s = ''.0'')
      \<or> s = ''nan'')"

definition ex_lib :: pylib where
  "ex_lib = \<lparr>
     py_int = (\<lambda>v. case v of
        JStr s \<Rightarrow> if ex_is_int s then None else Some ValueError
      | _ \<Rightarrow> Some TypeError),
     py_float = (\<lambda>v. case v of
        JStr s \<Rightarrow> if ex_is_float s then None else Some ValueError
      | _ \<Rightarrow> Some TypeError),
     str_float = (\<lambda>v. case v of
        JStr s \<Rightarrow> if ex_is_int s then s @ ''.0'' else s
      | _ \<Rightarrow> []),
     ip_address = (\<lambda>v. if v = JStr ''127.0.0.1'' \<or> v = JStr ''::1'' then None else Some ValueError),
     urlparse_ok = (\<lambda>v. v = JStr ''http://localhost:8081''),
     is_json = (\<lambda>v. case v of
        JStr s \<Rightarrow> Inr (s = ''{}'' \<or> s = ''[]'')
      | _ \<Rightarrow> Inl TypeError),
     import_module = (\<lambda>name. if name = ''foglamp.callback'' then RunCoroutine None else ImportFails)\<rparr>"

subsection \<open>State: storage tables, cache, interests and effects\<close>

text \<open>
  A row of the \<^verbatim>\<open>configuration\<close> table (the \<^verbatim>\<open>ts\<close> column is not modelled); the table
  is keyed by the category name.
\<close>

record category_row =
  description :: string
  cat_value :: json
  display_name :: string

text \<open>
  An entry of \<^verbatim>\<open>ConfigurationCache.cache\<close>. The source keeps a dictionary per entry;
  the keys \<^verbatim>\<open>date_accessed\<close> and \<^verbatim>\<open>hit\<close> can be missing (\<open>None\<close> here) and reading a
  missing one raises \<^verbatim>\<open>KeyError\<close>. Times are readings of \<^verbatim>\<open>datetime.datetime.now()\<close>.
\<close>

record cache_entry =
  date_accessed :: "nat option"
  entry_value :: json
  entry_displayName :: string
  entry_hit :: "nat option"

record ConfigurationCache =
  cache :: "(string \<times> cache_entry) list"
  max_cache_size :: nat
  hit :: nat
  miss :: nat

text \<open>The statements the manager sends to the storage service that change a table.\<close>

datatype storage_write =
    InsertCategory string
  | UpdateCategory string
  | UpdateItemValue string string json
  | BulkUpdateItems string "(string \<times> json) list"
  | DeleteCategory string
  | DeleteChildEdges string

text \<open>
  The configuration manager with the storage tables it talks to and what it has done:
  the audit entries written (code and details), the writes sent to storage and the
  callbacks run (module and category), each in order.
\<close>

record ConfigurationManager =
  configuration :: "(string \<times> category_row) list"
  category_children :: "(string \<times> string) list"
  cacheManager :: ConfigurationCache
  registered_interests :: "(string \<times> string list) list"
  audit_log :: "(string \<times> json) list"
  storage_writes :: "storage_write list"
  callbacks_run :: "(string \<times> string) list"

text \<open>
  \<^verbatim>\<open>AuditLogger(self._storage).information(code, details)\<close>. Modelled from the spec:
  the audit logger, whose module is not among the sources, records the code (\<^verbatim>\<open>CONAD\<close>,
  \<^verbatim>\<open>CONCH\<close>) with the details it is given.
\<close>

definition audit_information :: "string \<Rightarrow> json \<Rightarrow> ConfigurationManager \<Rightarrow> ConfigurationManager" where
  "audit_information code details s = s\<lparr>audit_log := audit_log s @ [(code, details)]\<rparr>"

subsection \<open>\<^verbatim>\<open>ConfigurationCache\<close>\<close>

definition MAX_CACHE_SIZE :: nat where
  "MAX_CACHE_SIZE = 10"

definition ConfigurationCache_init :: ConfigurationCache where
  "ConfigurationCache_init = \<lparr>cache = [], max_cache_size = MAX_CACHE_SIZE, hit = 0, miss = 0\<rparr>"

text \<open>\<^verbatim>\<open>__contains__\<close>: the answer and the cache afterwards.\<close>

definition ConfigurationCache_contains :: "nat \<Rightarrow> string \<Rightarrow> ConfigurationCache \<Rightarrow> bool \<times> ConfigurationCache" where
  "ConfigurationCache_contains now category_name c =
     (case map_of (cache c) category_name of
        Some e \<Rightarrow>
          (True,
           c\<lparr>hit := hit c + 1,
             cache := AList.update category_name
                        (e\<lparr>date_accessed := Some now,
                           entry_hit := Some ((case entry_hit e of None \<Rightarrow> 0 | Some h \<Rightarrow> h) + 1)\<rparr>)
                        (cache c)\<rparr>)
      | None \<Rightarrow> (False, c\<lparr>miss := miss c + 1\<rparr>))"

text \<open>
  The loop of \<^verbatim>\<open>remove_oldest\<close> over the keys of the cache; \<open>entries\<close> is the whole
  dictionary, for the lookups.
\<close>

fun find_oldest ::
  "(string \<times> cache_entry) list \<Rightarrow> (string \<times> cache_entry) list \<Rightarrow> string option
     \<Rightarrow> py_error + string option" where
  "find_oldest entries [] oldest_entry = Inr oldest_entry"
| "find_oldest entries ((category_name, e) # rest) oldest_entry =
     (case oldest_entry of
        None \<Rightarrow> find_oldest entries rest (Some category_name)
      | Some oldest \<Rightarrow>
          (case date_accessed e of
             None \<Rightarrow> Inl KeyError
           | Some d \<Rightarrow>
               (case map_of entries oldest of
                  None \<Rightarrow> Inl KeyError
                | Some oe \<Rightarrow>
                    (case date_accessed oe of
                       None \<Rightarrow> Inl KeyError
                     | Some od \<Rightarrow>
                         find_oldest entries rest
                           (if d < od then Some category_name else Some oldest)))))"

definition remove_oldest :: "ConfigurationCache \<Rightarrow> py_error + ConfigurationCache" where
  "remove_oldest c =
     (case find_oldest (cache c) (cache c) None of
        Inl e \<Rightarrow> Inl e
      | Inr None \<Rightarrow> Inl KeyError
      | Inr (Some oldest) \<Rightarrow> Inr (c\<lparr>cache := AList.delete oldest (cache c)\<rparr>))"

text \<open>\<^verbatim>\<open>update(category_name, category_val, display_name=None)\<close>.\<close>

definition ConfigurationCache_update ::
  "nat \<Rightarrow> string \<Rightarrow> json \<Rightarrow> string option \<Rightarrow> ConfigurationCache \<Rightarrow> py_error + ConfigurationCache" where
  "ConfigurationCache_update now category_name category_val display_name' c =
     (case (if map_of (cache c) category_name = None \<and> length (cache c) \<ge> max_cache_size c
            then remove_oldest c else Inr c) of
        Inl e \<Rightarrow> Inl e
      | Inr c' \<Rightarrow>
          Inr (c'\<lparr>cache := AList.update category_name
                 \<lparr>date_accessed = Some now, entry_value = category_val,
                  entry_displayName = (case display_name' of None \<Rightarrow> category_name | Some d \<Rightarrow> d),
                  entry_hit = None\<rparr>
                 (cache c')\<rparr>))"

text \<open>\<^verbatim>\<open>remove(key)\<close>.\<close>

definition ConfigurationCache_remove :: "string \<Rightarrow> ConfigurationCache \<Rightarrow> ConfigurationCache" where
  "ConfigurationCache_remove key c = c\<lparr>cache := AList.delete key (cache c)\<rparr>"

text \<open>The property \<^verbatim>\<open>size\<close>.\<close>

definition ConfigurationCache_size :: "ConfigurationCache \<Rightarrow> nat" where
  "ConfigurationCache_size c = length (cache c)"

subsection \<open>Storage reads and writes\<close>

text \<open>
  Modelled from the spec: the storage service (section 4.7, an external collaborator whose
  client is not among the sources) keeps the rows it is given: a select returns the rows
  that match, an insert of a key that exists is refused with a storage error, an update or
  a delete changes the rows that match and succeeds also when none does, and a JSON-path
  update sets the one field when the path to it exists. Python's \<^verbatim>\<open>None\<close> and JSON's
  \<^verbatim>\<open>null\<close> are both \<open>JNull\<close>.
\<close>

definition read_category_val :: "ConfigurationManager \<Rightarrow> string \<Rightarrow> json" where
  "read_category_val s category_name =
     (case map_of (configuration s) category_name of
        None \<Rightarrow> JNull
      | Some row \<Rightarrow> cat_value row)"

text \<open>The JSON-path read \<^verbatim>\<open>value->path\<close> of the storage service.\<close>

fun json_path :: "json \<Rightarrow> string list \<Rightarrow> json" where
  "json_path v [] = v"
| "json_path v (k # ks) =
     (case v of
        JDict kvs \<Rightarrow> (case map_of kvs k of None \<Rightarrow> JNull | Some w \<Rightarrow> json_path w ks)
      | _ \<Rightarrow> JNull)"

definition read_item_val :: "ConfigurationManager \<Rightarrow> string \<Rightarrow> string \<Rightarrow> json" where
  "read_item_val s category_name item_name =
     (case map_of (configuration s) category_name of
        None \<Rightarrow> JNull
      | Some row \<Rightarrow> json_path (cat_value row) [item_name])"

definition read_value_val :: "ConfigurationManager \<Rightarrow> string \<Rightarrow> string \<Rightarrow> json" where
  "read_value_val s category_name item_name =
     (case map_of (configuration s) category_name of
        None \<Rightarrow> JNull
      | Some row \<Rightarrow> json_path (cat_value row) [item_name, ''value''])"

text \<open>\<^verbatim>\<open>_read_all_category_names\<close>: key, description and display name of every row.\<close>

definition read_all_category_names :: "ConfigurationManager \<Rightarrow> (string \<times> string \<times> string) list" where
  "read_all_category_names s =
     map (\<lambda>(k, row). (k, description row, display_name row)) (configuration s)"

text \<open>The JSON-path write \<^verbatim>\<open>jsonb_set(value, '{item,value}', new)\<close>.\<close>

definition set_item_value :: "json \<Rightarrow> string \<Rightarrow> json \<Rightarrow> json" where
  "set_item_value category_val item_name new_value_val =
     (case category_val of
        JDict items \<Rightarrow>
          (case map_of items item_name of
             Some (JDict entries) \<Rightarrow>
               JDict (AList.update item_name
                        (JDict (AList.update ''value'' new_value_val entries)) items)
           | _ \<Rightarrow> category_val)
      | _ \<Rightarrow> category_val)"

definition storage_update_item_value ::
  "string \<Rightarrow> string \<Rightarrow> json \<Rightarrow> ConfigurationManager \<Rightarrow> ConfigurationManager" where
  "storage_update_item_value category_name item_name new_value_val s =
     s\<lparr>configuration :=
         (case map_of (configuration s) category_name of
            None \<Rightarrow> configuration s
          | Some row \<Rightarrow>
              AList.update category_name
                (row\<lparr>cat_value := set_item_value (cat_value row) item_name new_value_val\<rparr>)
                (configuration s)),
       storage_writes := storage_writes s @ [UpdateItemValue category_name item_name new_value_val]\<rparr>"

subsection \<open>\<^verbatim>\<open>_validate_category_val\<close>\<close>

text \<open>
  An item is the dictionary of its entries; a validated category value is the dictionary
  of its items, each known to be a dictionary.
\<close>

type_synonym item = "(string \<times> json) list"

type_synonym category_val = "(string \<times> item) list"

definition category_json :: "category_val \<Rightarrow> json" where
  "category_json category = JDict (map (\<lambda>(item_name, item_val). (item_name, JDict item_val)) category)"

definition optional_item_entries :: "string list" where
  "optional_item_entries =
     [''readonly'', ''order'', ''length'', ''maximum'', ''minimum'', ''deprecated'', ''displayName'']"

text \<open>
  The local function \<^verbatim>\<open>get_entry_val\<close>: the first element of the list of matching values,
  \<^verbatim>\<open>IndexError\<close> when there is none.
\<close>

definition get_entry_val :: "item \<Rightarrow> string \<Rightarrow> py_error + json" where
  "get_entry_val item_val k =
     (case map_of item_val k of None \<Rightarrow> Inl IndexError | Some v \<Rightarrow> Inr v)"

text \<open>Python's truth value of a validator result, for \<^verbatim>\<open>a or b\<close>.\<close>

definition truthy :: "validate_result \<Rightarrow> bool" where
  "truthy r = (case r of RBool b \<Rightarrow> b | RAddress _ \<Rightarrow> True | RNone \<Rightarrow> False)"

text \<open>
  First part of the body of the loop over the entries of an item: the type of the entry
  value, with the enumeration case. \<open>expected\<close> is \<^verbatim>\<open>expected_item_entries\<close>; the source
  stores the entry value under the entry name and overwrites it with 1 at the end of the
  same iteration, and nothing reads it in between but a test against \<^verbatim>\<open>None\<close>, so 1 is
  stored at once.
\<close>

definition check_entry_type ::
  "item \<Rightarrow> (string \<times> nat) list \<Rightarrow> string \<Rightarrow> json \<Rightarrow> py_error + (string \<times> nat) list" where
  "check_entry_type item_val expected entry_name entry_val =
     (if map_of item_val ''type'' = Some (JStr ''enumeration'') then
        if map_of item_val ''options'' = None then Inl KeyError
        else if entry_name = ''options'' then
          (case entry_val of
             JList opts \<Rightarrow>
               if opts = [] then Inl ValueError
               else
                 (case get_entry_val item_val ''default'' of
                    Inl e \<Rightarrow> Inl e
                  | Inr d \<Rightarrow>
                      if \<not> py_in d opts then Inl ValueError
                      else Inr (AList.update entry_name 1 expected))
           | _ \<Rightarrow> Inl TypeError)
        else (case entry_val of JStr _ \<Rightarrow> Inr expected | _ \<Rightarrow> Inl TypeError)
      else (case entry_val of JStr _ \<Rightarrow> Inr expected | _ \<Rightarrow> Inl TypeError))"

text \<open>Second part: an entry of the optional list is checked by its own type.\<close>

definition check_optional_entry ::
  "pylib \<Rightarrow> (string \<times> nat) list \<Rightarrow> string \<Rightarrow> json \<Rightarrow> py_error + (string \<times> nat) list" where
  "check_optional_entry lib expected entry_name entry_val =
     (if entry_name \<in> set optional_item_entries then
        (case
           (if entry_name = ''readonly'' \<or> entry_name = ''deprecated'' then
              (case validate_type_value lib (JStr ''boolean'') entry_val of
                 Inl e \<Rightarrow> Inl e
               | Inr r \<Rightarrow> if is_False r then Inl ValueError else Inr ())
            else if entry_name = ''minimum'' \<or> entry_name = ''maximum'' then
              (case validate_type_value lib (JStr ''integer'') entry_val of
                 Inl e \<Rightarrow> Inl e
               | Inr r1 \<Rightarrow>
                   if truthy r1 then (if is_False r1 then Inl ValueError else Inr ())
                   else
                     (case validate_type_value lib (JStr ''float'') entry_val of
                        Inl e \<Rightarrow> Inl e
                      | Inr r2 \<Rightarrow> if is_False r2 then Inl ValueError else Inr ()))
            else if entry_name = ''displayName'' then
              (case entry_val of JStr _ \<Rightarrow> Inr () | _ \<Rightarrow> Inl ValueError)
            else
              (case validate_type_value lib (JStr ''integer'') entry_val of
                 Inl e \<Rightarrow> Inl e
               | Inr r \<Rightarrow> if is_False r then Inl ValueError else Inr ())) of
           Inl e \<Rightarrow> Inl e
         | Inr _ \<Rightarrow> Inr (AList.update entry_name 1 expected))
      else Inr expected)"

text \<open>Third part: the entry must be expected, and a type must be a valid type string.\<close>

definition check_entry_expected ::
  "bool \<Rightarrow> (string \<times> nat) list \<Rightarrow> string \<Rightarrow> json \<Rightarrow> py_error + (string \<times> nat) list" where
  "check_entry_expected set_value_val_from_default_val expected entry_name entry_val =
     (if set_value_val_from_default_val \<and> entry_name = ''value'' then Inl ValueError
      else if map_of expected entry_name = None then Inl ValueError
      else if entry_name = ''type'' \<and> \<not> py_in entry_val (map JStr valid_type_strings)
      then Inl ValueError
      else Inr (AList.update entry_name 1 expected))"

definition validate_entry ::
  "pylib \<Rightarrow> bool \<Rightarrow> item \<Rightarrow> (string \<times> nat) list \<Rightarrow> string \<Rightarrow> json
     \<Rightarrow> py_error + (string \<times> nat) list" where
  "validate_entry lib set_value_val_from_default_val item_val expected entry_name entry_val =
     (case check_entry_type item_val expected entry_name entry_val of
        Inl e \<Rightarrow> Inl e
      | Inr expected1 \<Rightarrow>
          (case check_optional_entry lib expected1 entry_name entry_val of
             Inl e \<Rightarrow> Inl e
           | Inr expected2 \<Rightarrow>
               check_entry_expected set_value_val_from_default_val expected2 entry_name entry_val))"

text \<open>The loop \<^verbatim>\<open>for entry_name, entry_val in item_val.items()\<close>.\<close>

fun validate_entries ::
  "pylib \<Rightarrow> bool \<Rightarrow> item \<Rightarrow> (string \<times> nat) list \<Rightarrow> (string \<times> json) list
     \<Rightarrow> py_error + (string \<times> nat) list" where
  "validate_entries lib sv item_val expected [] = Inr expected"
| "validate_entries lib sv item_val expected ((entry_name, entry_val) # rest) =
     (case validate_entry lib sv item_val expected entry_name entry_val of
        Inl e \<Rightarrow> Inl e
      | Inr expected' \<Rightarrow> validate_entries lib sv item_val expected' rest)"

text \<open>
  \<^verbatim>\<open>if name in item_val: item_val[name] = self._clean('boolean', item_val[name])\<close>, for
  \<^verbatim>\<open>readonly\<close> and \<^verbatim>\<open>deprecated\<close>.
\<close>

definition clean_boolean_entry :: "pylib \<Rightarrow> string \<Rightarrow> item \<Rightarrow> py_error + item" where
  "clean_boolean_entry lib name item_val =
     (case map_of item_val name of
        None \<Rightarrow> Inr item_val
      | Some v \<Rightarrow>
          (case clean lib (JStr ''boolean'') v of
             Inl e \<Rightarrow> Inl e
           | Inr c \<Rightarrow> Inr (AList.update name c item_val)))"

text \<open>
  \<^verbatim>\<open>item_val['default'] = self._clean(item_val['type'], item_val['default'])\<close> and
  \<^verbatim>\<open>item_val['value'] = item_val['default']\<close>.
\<close>

definition set_value_from_default :: "pylib \<Rightarrow> item \<Rightarrow> py_error + item" where
  "set_value_from_default lib item_val =
     (case map_of item_val ''type'' of
        None \<Rightarrow> Inl KeyError
      | Some t \<Rightarrow>
          (case map_of item_val ''default'' of
             None \<Rightarrow> Inl KeyError
           | Some d \<Rightarrow>
               (case clean lib t d of
                  Inl e \<Rightarrow> Inl e
                | Inr c \<Rightarrow> Inr (AList.update ''value'' c (AList.update ''default'' c item_val)))))"

text \<open>The initial \<^verbatim>\<open>expected_item_entries\<close>.\<close>

definition expected_item_entries :: "bool \<Rightarrow> (string \<times> nat) list" where
  "expected_item_entries set_value_val_from_default_val =
     [(''description'', 0), (''default'', 0), (''type'', 0)]
     @ (if set_value_val_from_default_val then [] else [(''value'', 0)])"

text \<open>The body of the loop over the items, for one item.\<close>

definition validate_item :: "pylib \<Rightarrow> bool \<Rightarrow> json \<Rightarrow> py_error + item" where
  "validate_item lib set_value_val_from_default_val item_json =
     (case item_json of
        JDict item_val \<Rightarrow>
          (case validate_entries lib set_value_val_from_default_val item_val
                  (expected_item_entries set_value_val_from_default_val) item_val of
             Inl e \<Rightarrow> Inl e
           | Inr expected \<Rightarrow>
               if list_ex (\<lambda>(needed_key, needed_value). needed_value = 0) expected
               then Inl ValueError
               else
                 (case get_entry_val item_val ''type'' of
                    Inl e \<Rightarrow> Inl e
                  | Inr t \<Rightarrow>
                      (case get_entry_val item_val ''default'' of
                         Inl e \<Rightarrow> Inl e
                       | Inr d \<Rightarrow>
                           (case validate_type_value lib t d of
                              Inl e \<Rightarrow> Inl e
                            | Inr r \<Rightarrow>
                                if is_False r then Inl ValueError
                                else
                                  (case clean_boolean_entry lib ''readonly'' item_val of
                                     Inl e \<Rightarrow> Inl e
                                   | Inr item1 \<Rightarrow>
                                       (case clean_boolean_entry lib ''deprecated'' item1 of
                                          Inl e \<Rightarrow> Inl e
                                        | Inr item2 \<Rightarrow>
                                            if set_value_val_from_default_val
                                            then set_value_from_default lib item2
                                            else Inr item2))))))
      | _ \<Rightarrow> Inl TypeError)"

text \<open>The loop \<^verbatim>\<open>for item_name, item_val in category_val_copy.items()\<close>.\<close>

fun validate_items :: "pylib \<Rightarrow> bool \<Rightarrow> (string \<times> json) list \<Rightarrow> py_error + category_val" where
  "validate_items lib sv [] = Inr []"
| "validate_items lib sv ((item_name, item_json) # rest) =
     (case validate_item lib sv item_json of
        Inl e \<Rightarrow> Inl e
      | Inr item_val \<Rightarrow>
          (case validate_items lib sv rest of
             Inl e \<Rightarrow> Inl e
           | Inr rest' \<Rightarrow> Inr ((item_name, item_val) # rest')))"

definition validate_category_val :: "pylib \<Rightarrow> json \<Rightarrow> bool \<Rightarrow> py_error + category_val" where
  "validate_category_val lib category_val set_value_val_from_default_val =
     (case category_val of
        JDict items \<Rightarrow> validate_items lib set_value_val_from_default_val items
      | _ \<Rightarrow> Inl TypeError)"

subsection \<open>\<^verbatim>\<open>_run_callbacks\<close>\<close>

fun run_callback_list ::
  "pylib \<Rightarrow> string \<Rightarrow> string list \<Rightarrow> ConfigurationManager \<Rightarrow> py_error option \<times> ConfigurationManager" where
  "run_callback_list lib category_name [] s = (None, s)"
| "run_callback_list lib category_name (callback # rest) s =
     (case import_module lib callback of
        ImportFails \<Rightarrow> (Some ImportError, s)
      | NoRunMethod \<Rightarrow> (Some AttributeError, s)
      | RunNotCoroutine \<Rightarrow> (Some AttributeError, s)
      | RunCoroutine outcome \<Rightarrow>
          (let s' = s\<lparr>callbacks_run := callbacks_run s @ [(callback, category_name)]\<rparr> in
           case outcome of
             Some e \<Rightarrow> (Some e, s')
           | None \<Rightarrow> run_callback_list lib category_name rest s'))"

definition run_callbacks ::
  "pylib \<Rightarrow> string \<Rightarrow> ConfigurationManager \<Rightarrow> py_error option \<times> ConfigurationManager" where
  "run_callbacks lib category_name s =
     (case map_of (registered_interests s) category_name of
        None \<Rightarrow> (None, s)
      | Some callbacks \<Rightarrow> run_callback_list lib category_name callbacks s)"

subsection \<open>\<^verbatim>\<open>_merge_category_vals\<close>\<close>

text \<open>
  The first loop, over the items of the copy of the new category value. It returns the
  copy with the values taken from storage, what is left of the copy of the stored value,
  and \<^verbatim>\<open>deprecated_items\<close>; an audit entry is written for every item marked deprecated.
\<close>

fun merge_items ::
  "string \<Rightarrow> category_val \<Rightarrow> category_val \<Rightarrow> ConfigurationManager
     \<Rightarrow> (py_error + category_val \<times> category_val \<times> string list) \<times> ConfigurationManager" where
  "merge_items category_name [] category_val_storage_copy s =
     (Inr ([], category_val_storage_copy, []), s)"
| "merge_items category_name ((item_name_new, item_val_new) # rest) category_val_storage_copy s =
     (let (item_val_new', storage_copy') =
            (case map_of category_val_storage_copy item_name_new of
               None \<Rightarrow> (item_val_new, category_val_storage_copy)
             | Some item_val_storage \<Rightarrow>
                 (AList.update ''value''
                    (case map_of item_val_storage ''value'' of None \<Rightarrow> JNull | Some v \<Rightarrow> v)
                    item_val_new,
                  AList.delete item_name_new category_val_storage_copy))
      in if map_of item_val_new' ''deprecated'' = Some (JStr ''true'') then
           (case map_of item_val_new' ''value'' of
              None \<Rightarrow> (Inl KeyError, s)
            | Some old_value \<Rightarrow>
                (case merge_items category_name rest storage_copy'
                        (audit_information ''CONCH''
                           (JDict [(''category'', JStr category_name), (''item'', JStr item_name_new),
                                   (''oldValue'', old_value), (''newValue'', JStr ''deprecated'')])
                           s) of
                   (Inl e, s') \<Rightarrow> (Inl e, s')
                 | (Inr (new_copy, storage_copy'', deprecated_items), s') \<Rightarrow>
                     (Inr ((item_name_new, item_val_new') # new_copy, storage_copy'',
                           item_name_new # deprecated_items), s')))
         else
           (case merge_items category_name rest storage_copy' s of
              (Inl e, s') \<Rightarrow> (Inl e, s')
            | (Inr (new_copy, storage_copy'', deprecated_items), s') \<Rightarrow>
                (Inr ((item_name_new, item_val_new') # new_copy, storage_copy'',
                      deprecated_items), s')))"

definition merge_category_vals ::
  "category_val \<Rightarrow> category_val \<Rightarrow> bool \<Rightarrow> string \<Rightarrow> ConfigurationManager
     \<Rightarrow> (py_error + category_val) \<times> ConfigurationManager" where
  "merge_category_vals category_val_new category_val_storage keep_original_items category_name s =
     (case merge_items category_name category_val_new category_val_storage s of
        (Inl e, s') \<Rightarrow> (Inl e, s')
      | (Inr (new_copy, storage_copy, deprecated_items), s') \<Rightarrow>
          (let new_copy' = fold AList.delete deprecated_items new_copy
           in (Inr (if keep_original_items
                    then fold (\<lambda>(item_name_storage, item_val_storage).
                                 AList.update item_name_storage item_val_storage)
                           storage_copy new_copy'
                    else new_copy'), s')))"

subsection \<open>\<^verbatim>\<open>_create_new_category\<close> and \<^verbatim>\<open>_update_category\<close>\<close>

text \<open>
  \<^verbatim>\<open>_create_new_category\<close>. The audit entry is written before the insert. A
  \<^verbatim>\<open>KeyError\<close> or a storage error inside the \<^verbatim>\<open>try\<close> is re-raised as \<^verbatim>\<open>ValueError\<close>.
\<close>

definition create_new_category ::
  "nat \<Rightarrow> string \<Rightarrow> category_val \<Rightarrow> string \<Rightarrow> string option \<Rightarrow> ConfigurationManager
     \<Rightarrow> py_error option \<times> ConfigurationManager" where
  "create_new_category now category_name category_val category_description display_name' s =
     (let new_category_val =
            filter (\<lambda>(i, v). map_of v ''deprecated'' \<noteq> Some (JStr ''true'')) category_val;
          display = (case display_name' of None \<Rightarrow> category_name | Some d \<Rightarrow> d);
          s1 = audit_information ''CONAD''
                 (JDict [(''name'', JStr category_name),
                         (''category'', category_json new_category_val)]) s
      in if map_of (configuration s1) category_name \<noteq> None then (Some ValueError, s1)
         else
           (let s2 = s1\<lparr>configuration := configuration s1 @
                          [(category_name, \<lparr>description = category_description,
                              cat_value = category_json new_category_val,
                              display_name = display\<rparr>)],
                        storage_writes := storage_writes s1 @ [InsertCategory category_name]\<rparr>
            in case ConfigurationCache_update now category_name (category_json new_category_val)
                      (Some display) (cacheManager s2) of
                 Inl e \<Rightarrow> (Some ValueError, s2)
               | Inr c \<Rightarrow> (None, s2\<lparr>cacheManager := c\<rparr>)))"

text \<open>
  \<^verbatim>\<open>_update_category\<close>. After the storage update the category is re-read and written into
  the cache dictionary directly, not through \<^verbatim>\<open>ConfigurationCache.update\<close>: an entry that
  is new gets the keys \<^verbatim>\<open>value\<close> and \<^verbatim>\<open>displayName\<close> only.
\<close>

definition update_category ::
  "string \<Rightarrow> category_val \<Rightarrow> string \<Rightarrow> string option \<Rightarrow> ConfigurationManager
     \<Rightarrow> py_error option \<times> ConfigurationManager" where
  "update_category category_name category_val category_description display_name' s =
     (let display = (case display_name' of None \<Rightarrow> category_name | Some d \<Rightarrow> d);
          s1 = s\<lparr>configuration :=
                    (case map_of (configuration s) category_name of
                       None \<Rightarrow> configuration s
                     | Some row \<Rightarrow>
                         AList.update category_name
                           \<lparr>description = category_description,
                            cat_value = category_json category_val,
                            display_name = display\<rparr>
                           (configuration s)),
                  storage_writes := storage_writes s @ [UpdateCategory category_name]\<rparr>;
          new_category_val_db = read_category_val s1 category_name;
          c = cacheManager s1
      in (None,
          s1\<lparr>cacheManager :=
               c\<lparr>cache :=
                   (case map_of (cache c) category_name of
                      Some e \<Rightarrow>
                        AList.update category_name
                          (e\<lparr>entry_value := new_category_val_db, entry_displayName := display\<rparr>)
                          (cache c)
                    | None \<Rightarrow>
                        AList.update category_name
                          \<lparr>date_accessed = None, entry_value = new_category_val_db,
                           entry_displayName = display, entry_hit = None\<rparr>
                          (cache c))\<rparr>\<rparr>))"

subsection \<open>\<^verbatim>\<open>create_category\<close>\<close>

text \<open>
  The result is the exception raised, or \<open>None\<close> when the call returns, and the manager
  afterwards. \<open>now\<close> is the reading of the clock used for the cache. The \<^verbatim>\<open>return\<close> inside
  the \<^verbatim>\<open>try\<close> leaves before the callbacks; the \<^verbatim>\<open>except\<close> branch of the re-validation
  only logs and falls through to the callbacks.
\<close>

definition create_category ::
  "pylib \<Rightarrow> nat \<Rightarrow> string \<Rightarrow> json \<Rightarrow> string \<Rightarrow> bool \<Rightarrow> string option \<Rightarrow> ConfigurationManager
     \<Rightarrow> py_error option \<times> ConfigurationManager" where
  "create_category lib now category_name category_value category_description keep_original_items
     display_name' s =
     (case validate_category_val lib category_value True of
        Inl e \<Rightarrow> (Some e, s)
      | Inr category_val_prepared \<Rightarrow>
          (let category_val_storage = read_category_val s category_name in
           if category_val_storage = JNull then
             (case create_new_category now category_name category_val_prepared
                     category_description display_name' s of
                (Some e, s') \<Rightarrow> (Some e, s')
              | (None, s') \<Rightarrow> run_callbacks lib category_name s')
           else
             (case validate_category_val lib category_val_storage False of
                Inl e \<Rightarrow> run_callbacks lib category_name s
              | Inr category_val_storage' \<Rightarrow>
                  (case map_of (read_all_category_names s) category_name of
                     None \<Rightarrow> (Some NameError, s)
                   | Some (d, display_name_storage) \<Rightarrow>
                       (let display = (case display_name' of
                                         None \<Rightarrow> display_name_storage | Some dn \<Rightarrow> dn)
                        in case merge_category_vals category_val_prepared category_val_storage'
                                  keep_original_items category_name s of
                             (Inl e, s') \<Rightarrow> (Some e, s')
                           | (Inr merged, s') \<Rightarrow>
                               if dumps_eq (category_json merged) (category_json category_val_storage')
                                  \<and> display_name_storage = display
                               then (None, s')
                               else
                                 (case update_category category_name merged category_description
                                         (Some display) s' of
                                    (Some e, s'') \<Rightarrow> (Some e, s'')
                                  | (None, s'') \<Rightarrow> run_callbacks lib category_name s''))))))"

subsection \<open>Containers\<close>

text \<open>\<^verbatim>\<open>k in s\<close> for two strings: \<open>k\<close> occurs in \<open>s\<close>.\<close>

fun is_prefix :: "string \<Rightarrow> string \<Rightarrow> bool" where
  "is_prefix [] s = True"
| "is_prefix (c # k) [] = False"
| "is_prefix (c # k) (d # s) = (c = d \<and> is_prefix k s)"

fun is_substring :: "string \<Rightarrow> string \<Rightarrow> bool" where
  "is_substring k [] = (k = [])"
| "is_substring k (d # s) = (is_prefix k (d # s) \<or> is_substring k s)"

text \<open>
  Python's \<^verbatim>\<open>x in container\<close>: list membership, dictionary key membership (an unhashable
  \<open>x\<close> raises), substring for strings, \<^verbatim>\<open>TypeError\<close> for a container that is not iterable.
\<close>

definition py_contains :: "json \<Rightarrow> json \<Rightarrow> py_error + bool" where
  "py_contains container x =
     (case container of
        JList xs \<Rightarrow> Inr (py_in x xs)
      | JDict kvs \<Rightarrow>
          (case x of
             JStr k \<Rightarrow> Inr (map_of kvs k \<noteq> None)
           | JList _ \<Rightarrow> Inl TypeError
           | JDict _ \<Rightarrow> Inl TypeError
           | _ \<Rightarrow> Inr False)
      | JStr s \<Rightarrow> (case x of JStr k \<Rightarrow> Inr (is_substring k s) | _ \<Rightarrow> Inl TypeError)
      | _ \<Rightarrow> Inl TypeError)"

text \<open>\<^verbatim>\<open>d[k] = v\<close> for a string key: only a dictionary accepts it.\<close>

definition setitem :: "json \<Rightarrow> string \<Rightarrow> json \<Rightarrow> py_error + json" where
  "setitem d k v =
     (case d of JDict kvs \<Rightarrow> Inr (JDict (AList.update k v kvs)) | _ \<Rightarrow> Inl TypeError)"

text \<open>\<^verbatim>\<open>d.update({k: v})\<close>: only a dictionary has the method.\<close>

definition dict_update :: "json \<Rightarrow> string \<Rightarrow> json \<Rightarrow> py_error + json" where
  "dict_update d k v =
     (case d of JDict kvs \<Rightarrow> Inr (JDict (AList.update k v kvs)) | _ \<Rightarrow> Inl AttributeError)"

subsection \<open>\<^verbatim>\<open>get_category_all_items\<close>\<close>

definition get_category_all_items ::
  "nat \<Rightarrow> string \<Rightarrow> ConfigurationManager \<Rightarrow> (py_error + json) \<times> ConfigurationManager" where
  "get_category_all_items now category_name s =
     (case ConfigurationCache_contains now category_name (cacheManager s) of
        (True, c) \<Rightarrow>
          (case map_of (cache c) category_name of
             None \<Rightarrow> (Inl KeyError, s\<lparr>cacheManager := c\<rparr>)
           | Some e \<Rightarrow> (Inr (entry_value e), s\<lparr>cacheManager := c\<rparr>))
      | (False, c) \<Rightarrow>
          (let cat = read_category_val s category_name in
           if cat \<noteq> JNull then
             (case ConfigurationCache_update now category_name cat None c of
                Inl e \<Rightarrow> (Inl e, s\<lparr>cacheManager := c\<rparr>)
              | Inr c' \<Rightarrow> (Inr cat, s\<lparr>cacheManager := c'\<rparr>))
           else (Inr cat, s\<lparr>cacheManager := c\<rparr>)))"

subsection \<open>\<^verbatim>\<open>_update_value_val\<close>\<close>

definition update_value_val ::
  "string \<Rightarrow> string \<Rightarrow> json \<Rightarrow> ConfigurationManager \<Rightarrow> ConfigurationManager" where
  "update_value_val category_name item_name new_value_val s =
     (let old_value = read_value_val s category_name item_name
      in audit_information ''CONCH''
           (JDict [(''category'', JStr category_name), (''item'', JStr item_name),
                   (''oldValue'', old_value), (''newValue'', new_value_val)])
           (storage_update_item_value category_name item_name new_value_val s))"

subsection \<open>Refreshing one item of the cache\<close>

text \<open>
  The statements at the end of \<^verbatim>\<open>set_category_item_value_entry\<close> and inside the second
  loop of \<^verbatim>\<open>update_configuration_item_bulk\<close>, for a category that is in the cache:
  \<^verbatim>\<open>cache[name]['value'][item]['value'] = rhs\<close> when the item is cached, else
  \<^verbatim>\<open>cache[name]['value'].update({item: rhs})\<close>. \<open>rhs\<close> is the right-hand side read back
  from storage, or the exception its evaluation raises; Python evaluates it after the
  membership test, before the target of the assignment and after the lookup of the method
  \<^verbatim>\<open>update\<close>.
\<close>

definition refresh_cached_item ::
  "string \<Rightarrow> string \<Rightarrow> py_error + json \<Rightarrow> ConfigurationCache \<Rightarrow> py_error + ConfigurationCache" where
  "refresh_cached_item category_name item_name rhs c =
     (case map_of (cache c) category_name of
        None \<Rightarrow> Inr c
      | Some e \<Rightarrow>
          (case py_contains (entry_value e) (JStr item_name) of
             Inl x \<Rightarrow> Inl x
           | Inr present \<Rightarrow>
               (case (if present then
                        (case rhs of
                           Inl x \<Rightarrow> Inl x
                         | Inr v \<Rightarrow>
                             (case subscript (entry_value e) item_name of
                                Inl x \<Rightarrow> Inl x
                              | Inr cached_item \<Rightarrow>
                                  (case setitem cached_item ''value'' v of
                                     Inl x \<Rightarrow> Inl x
                                   | Inr cached_item' \<Rightarrow>
                                       setitem (entry_value e) item_name cached_item')))
                      else
                        (case entry_value e of
                           JDict _ \<Rightarrow>
                             (case rhs of
                                Inl x \<Rightarrow> Inl x
                              | Inr v \<Rightarrow> dict_update (entry_value e) item_name v)
                         | _ \<Rightarrow> Inl AttributeError)) of
                  Inl x \<Rightarrow> Inl x
                | Inr value' \<Rightarrow>
                    Inr (c\<lparr>cache := AList.update category_name (e\<lparr>entry_value := value'\<rparr>)
                                        (cache c)\<rparr>))))"

subsection \<open>\<^verbatim>\<open>set_category_item_value_entry\<close>\<close>

text \<open>
  The part after the current entry has been resolved and found different: validation,
  cleaning, the storage update with its audit entry, the refresh of the cache and the
  callbacks.
\<close>

definition set_value_entry_update ::
  "pylib \<Rightarrow> string \<Rightarrow> string \<Rightarrow> json \<Rightarrow> json \<Rightarrow> ConfigurationManager
     \<Rightarrow> py_error option \<times> ConfigurationManager" where
  "set_value_entry_update lib category_name item_name new_value_entry storage_value_entry s =
     (case subscript storage_value_entry ''type'' of
        Inl x \<Rightarrow> (Some x, s)
      | Inr t \<Rightarrow>
          (case (if py_eq t (JStr ''enumeration'') then
                   if py_eq new_value_entry (JStr []) then Inl ValueError
                   else
                     (case subscript storage_value_entry ''options'' of
                        Inl x \<Rightarrow> Inl x
                      | Inr options \<Rightarrow>
                          (case py_contains options new_value_entry of
                             Inl x \<Rightarrow> Inl x
                           | Inr present \<Rightarrow> if present then Inr () else Inl ValueError))
                 else
                   (case validate_type_value lib t new_value_entry of
                      Inl x \<Rightarrow> Inl x
                    | Inr r \<Rightarrow> if is_False r then Inl TypeError else Inr ())) of
             Inl x \<Rightarrow> (Some x, s)
           | Inr _ \<Rightarrow>
               (case clean lib t new_value_entry of
                  Inl x \<Rightarrow> (Some x, s)
                | Inr new_value_entry' \<Rightarrow>
                    (let s1 = update_value_val category_name item_name new_value_entry' s;
                         cat_item = read_item_val s1 category_name item_name
                     in case refresh_cached_item category_name item_name
                               (subscript cat_item ''value'') (cacheManager s1) of
                          Inl x \<Rightarrow> (Some x, s1)
                        | Inr c \<Rightarrow> run_callbacks lib category_name (s1\<lparr>cacheManager := c\<rparr>)))))"

text \<open>
  \<^verbatim>\<open>set_category_item_value_entry\<close>. On a cache hit the new value is compared with the
  \<^verbatim>\<open>value\<close> entry of the cached item; on a miss the source compares it with the whole
  item read from storage (\<^verbatim>\<open>storage_value_entry == new_value_entry\<close>).
\<close>

definition set_category_item_value_entry ::
  "pylib \<Rightarrow> nat \<Rightarrow> string \<Rightarrow> string \<Rightarrow> json \<Rightarrow> ConfigurationManager
     \<Rightarrow> py_error option \<times> ConfigurationManager" where
  "set_category_item_value_entry lib now category_name item_name new_value_entry s =
     (case ConfigurationCache_contains now category_name (cacheManager s) of
        (True, c) \<Rightarrow>
          (let s1 = s\<lparr>cacheManager := c\<rparr> in
           case map_of (cache c) category_name of
             None \<Rightarrow> (Some KeyError, s1)
           | Some e \<Rightarrow>
               (case py_contains (entry_value e) (JStr item_name) of
                  Inl x \<Rightarrow> (Some x, s1)
                | Inr present \<Rightarrow>
                    if \<not> present then (Some ValueError, s1)
                    else
                      (case subscript (entry_value e) item_name of
                         Inl x \<Rightarrow> (Some x, s1)
                       | Inr storage_value_entry \<Rightarrow>
                           (case subscript storage_value_entry ''value'' of
                              Inl x \<Rightarrow> (Some x, s1)
                            | Inr current \<Rightarrow>
                                if py_eq current new_value_entry then (None, s1)
                                else set_value_entry_update lib category_name item_name
                                       new_value_entry storage_value_entry s1))))
      | (False, c) \<Rightarrow>
          (let s1 = s\<lparr>cacheManager := c\<rparr>;
               storage_value_entry = read_item_val s1 category_name item_name
           in if storage_value_entry = JNull then (Some ValueError, s1)
              else if py_eq storage_value_entry new_value_entry then (None, s1)
              else set_value_entry_update lib category_name item_name
                     new_value_entry storage_value_entry s1))"

subsection \<open>\<^verbatim>\<open>update_configuration_item_bulk\<close>\<close>

text \<open>
  The body of the first loop for one item, up to the cleaning of the new value: it returns
  the item's current value entry and the cleaned new value.
\<close>

definition bulk_check_item :: "pylib \<Rightarrow> json \<Rightarrow> string \<Rightarrow> json \<Rightarrow> py_error + json \<times> json" where
  "bulk_check_item lib cat_info item_name new_val =
     (case py_contains cat_info (JStr item_name) of
        Inl x \<Rightarrow> Inl x
      | Inr present \<Rightarrow>
          if \<not> present then Inl KeyError
          else
            (case subscript cat_info item_name of
               Inl x \<Rightarrow> Inl x
             | Inr item \<Rightarrow>
                 (case subscript item ''type'' of
                    Inl x \<Rightarrow> Inl x
                  | Inr t \<Rightarrow>
                      (case (if py_eq t (JStr ''JSON'')
                             then (case new_val of
                                     JDict _ \<Rightarrow> Inr () | JStr _ \<Rightarrow> Inr () | _ \<Rightarrow> Inl TypeError)
                             else (case new_val of JStr _ \<Rightarrow> Inr () | _ \<Rightarrow> Inl TypeError)) of
                         Inl x \<Rightarrow> Inl x
                       | Inr _ \<Rightarrow>
                           (case (if py_eq t (JStr ''enumeration'') then
                                    if py_eq new_val (JStr []) then Inl ValueError
                                    else
                                      (case subscript item ''options'' of
                                         Inl x \<Rightarrow> Inl x
                                       | Inr options \<Rightarrow>
                                           (case py_contains options new_val of
                                              Inl x \<Rightarrow> Inl x
                                            | Inr p \<Rightarrow> if p then Inr () else Inl ValueError))
                                  else
                                    (case validate_type_value lib t new_val of
                                       Inl x \<Rightarrow> Inl x
                                     | Inr r \<Rightarrow> if is_False r then Inl TypeError else Inr ())) of
                              Inl x \<Rightarrow> Inl x
                            | Inr _ \<Rightarrow>
                                (case subscript item ''value'' of
                                   Inl x \<Rightarrow> Inl x
                                 | Inr old_value \<Rightarrow>
                                     (case clean lib t new_val of
                                        Inl x \<Rightarrow> Inl x
                                      | Inr new_val' \<Rightarrow> Inr (old_value, new_val'))))))))"

text \<open>
  The first loop: the list of updates for storage (item and new value) and the
  \<^verbatim>\<open>items\<close> of the audit details, for the items whose value changes.
\<close>

fun bulk_collect ::
  "pylib \<Rightarrow> json \<Rightarrow> (string \<times> json) list
     \<Rightarrow> py_error + (string \<times> json) list \<times> (string \<times> json) list" where
  "bulk_collect lib cat_info [] = Inr ([], [])"
| "bulk_collect lib cat_info ((item_name, new_val) # rest) =
     (case bulk_check_item lib cat_info item_name new_val of
        Inl x \<Rightarrow> Inl x
      | Inr (old_value, new_val') \<Rightarrow>
          (case bulk_collect lib cat_info rest of
             Inl x \<Rightarrow> Inl x
           | Inr (updates, audit_items) \<Rightarrow>
               if \<not> py_eq old_value new_val'
               then Inr ((item_name, new_val') # updates,
                         (item_name, JDict [(''oldValue'', old_value), (''newValue'', new_val')])
                           # audit_items)
               else Inr (updates, audit_items)))"

text \<open>The one batched storage update.\<close>

definition storage_bulk_update ::
  "string \<Rightarrow> (string \<times> json) list \<Rightarrow> ConfigurationManager \<Rightarrow> ConfigurationManager" where
  "storage_bulk_update category_name updates s =
     s\<lparr>configuration :=
         (case map_of (configuration s) category_name of
            None \<Rightarrow> configuration s
          | Some row \<Rightarrow>
              AList.update category_name
                (row\<lparr>cat_value :=
                    fold (\<lambda>(item_name, new_val) v. set_item_value v item_name new_val)
                      updates (cat_value row)\<rparr>)
                (configuration s)),
       storage_writes := storage_writes s @ [BulkUpdateItems category_name updates]\<rparr>"

text \<open>The second loop, over the supplied items; an exception stops it where it stands.\<close>

fun bulk_refresh ::
  "string \<Rightarrow> json \<Rightarrow> string list \<Rightarrow> ConfigurationCache \<Rightarrow> py_error option \<times> ConfigurationCache" where
  "bulk_refresh category_name cat_value_db [] c = (None, c)"
| "bulk_refresh category_name cat_value_db (item_name # rest) c =
     (case refresh_cached_item category_name item_name
             (case subscript cat_value_db item_name of
                Inl x \<Rightarrow> Inl x
              | Inr item \<Rightarrow> subscript item ''value'') c of
        Inl x \<Rightarrow> (Some x, c)
      | Inr c' \<Rightarrow> bulk_refresh category_name cat_value_db rest c')"

definition update_configuration_item_bulk ::
  "pylib \<Rightarrow> nat \<Rightarrow> string \<Rightarrow> (string \<times> json) list \<Rightarrow> ConfigurationManager
     \<Rightarrow> py_error option \<times> ConfigurationManager" where
  "update_configuration_item_bulk lib now category_name config_item_list s =
     (case get_category_all_items now category_name s of
        (Inl x, s1) \<Rightarrow> (Some x, s1)
      | (Inr cat_info, s1) \<Rightarrow>
          if cat_info = JNull then (Some NameError, s1)
          else
            (case bulk_collect lib cat_info config_item_list of
               Inl x \<Rightarrow> (Some x, s1)
             | Inr (updates, audit_items) \<Rightarrow>
                 if updates = [] then (None, s1)
                 else
                   (let s2 = storage_bulk_update category_name updates s1;
                        cat_value_db = read_category_val s2 category_name
                    in case bulk_refresh category_name cat_value_db (map fst config_item_list)
                              (cacheManager s2) of
                         (Some x, c) \<Rightarrow> (Some x, s2\<lparr>cacheManager := c\<rparr>)
                       | (None, c) \<Rightarrow>
                           run_callbacks lib category_name
                             (audit_information ''CONCH''
                                (JDict [(''category'', JStr category_name),
                                        (''items'', JDict audit_items)])
                                (s2\<lparr>cacheManager := c\<rparr>)))))"

subsection \<open>Recursive delete\<close>

definition RESERVED_CATG :: "string list" where
  "RESERVED_CATG =
     [''South'', ''North'', ''General'', ''Advanced'', ''Utilities'', ''rest_api'',
      ''Security'', ''service'', ''SCHEDULER'', ''SMNTR'', ''PURGE_READ'', ''Notifications'']"

text \<open>
  \<^verbatim>\<open>_read_all_child_category_names\<close>, reduced to the child names: the rows of
  \<^verbatim>\<open>category_children\<close> whose parent is the category, in table order.
\<close>

definition child_names :: "(string \<times> string) list \<Rightarrow> string \<Rightarrow> string list" where
  "child_names edges category_name = map snd (filter (\<lambda>(parent, child). parent = category_name) edges)"

text \<open>
  \<^verbatim>\<open>_fetch_descendents\<close>. The recursion of the source does not end on a cycle of
  parent-child edges; Python then raises \<^verbatim>\<open>RecursionError\<close> when the interpreter's
  recursion limit is reached. \<open>depth\<close> is the number of nested calls the interpreter still
  allows. The second function is the loop over the children.
\<close>

fun fetch_descendents :: "nat \<Rightarrow> (string \<times> string) list \<Rightarrow> string \<Rightarrow> py_error + string list"
  and fetch_descendents_children ::
    "nat \<Rightarrow> (string \<times> string) list \<Rightarrow> string list \<Rightarrow> py_error + string list" where
  "fetch_descendents 0 edges cat = Inl RecursionError"
| "fetch_descendents (Suc depth) edges cat =
     fetch_descendents_children depth edges (child_names edges cat)"
| "fetch_descendents_children depth edges [] = Inr []"
| "fetch_descendents_children depth edges (child # rest) =
     (case fetch_descendents depth edges child of
        Inl e \<Rightarrow> Inl e
      | Inr child_descendents \<Rightarrow>
          (case fetch_descendents_children depth edges rest of
             Inl e \<Rightarrow> Inl e
           | Inr descendents \<Rightarrow> Inr (child # child_descendents @ descendents)))"

text \<open>
  \<^verbatim>\<open>_delete_recursively\<close>: the children first, then the edges that lead to the category,
  its row, the audit entry and the cache entry. A \<^verbatim>\<open>RecursionError\<close> passes through the
  \<^verbatim>\<open>except\<close> clauses and leaves what was deleted so far deleted.
\<close>

fun delete_recursively ::
    "nat \<Rightarrow> string \<Rightarrow> ConfigurationManager \<Rightarrow> py_error option \<times> ConfigurationManager"
  and delete_children ::
    "nat \<Rightarrow> string list \<Rightarrow> ConfigurationManager \<Rightarrow> py_error option \<times> ConfigurationManager" where
  "delete_recursively 0 cat s = (Some RecursionError, s)"
| "delete_recursively (Suc depth) cat s =
     (case delete_children depth (child_names (category_children s) cat) s of
        (Some e, s') \<Rightarrow> (Some e, s')
      | (None, s1) \<Rightarrow>
          (let s2 = s1\<lparr>category_children :=
                         filter (\<lambda>(parent, child). child \<noteq> cat) (category_children s1),
                       storage_writes := storage_writes s1 @ [DeleteChildEdges cat]\<rparr>;
               s3 = s2\<lparr>configuration := AList.delete cat (configuration s2),
                       storage_writes := storage_writes s2 @ [DeleteCategory cat]\<rparr>;
               s4 = audit_information ''CONCH'' (JDict [(''categoryDeleted'', JStr cat)]) s3
           in (None,
               if map_of (cache (cacheManager s4)) cat \<noteq> None
               then s4\<lparr>cacheManager := ConfigurationCache_remove cat (cacheManager s4)\<rparr>
               else s4)))"
| "delete_children depth [] s = (None, s)"
| "delete_children depth (child # rest) s =
     (case delete_recursively depth child s of
        (Some e, s') \<Rightarrow> (Some e, s')
      | (None, s') \<Rightarrow> delete_children depth rest s')"

definition delete_category_and_children_recursively ::
  "nat \<Rightarrow> string \<Rightarrow> ConfigurationManager \<Rightarrow> py_error option \<times> ConfigurationManager" where
  "delete_category_and_children_recursively depth category_name s =
     (if read_category_val s category_name = JNull then (Some ValueError, s)
      else
        (case fetch_descendents depth (category_children s) category_name of
           Inl e \<Rightarrow> (Some e, s)
         | Inr catg_descendents \<Rightarrow>
             if list_ex (\<lambda>catg. catg \<in> set catg_descendents) RESERVED_CATG
             then (Some ValueError, s)
             else delete_recursively depth category_name s))"

subsection \<open>Example values and states\<close>

text \<open>The item \<^verbatim>\<open>{"description": "d", "type": "integer", "default": d}\<close>.\<close>

definition ex_item :: "string \<Rightarrow> item" where
  "ex_item d = [(''description'', JStr ''d''), (''type'', JStr ''integer''), (''default'', JStr d)]"

text \<open>The category value \<^verbatim>\<open>{"age": {"description": "d", "type": "integer", "default": d}}\<close>.\<close>

definition ex_category :: "string \<Rightarrow> json" where
  "ex_category d = JDict [(''age'', JDict (ex_item d))]"

text \<open>The same item as storage holds it, with a \<^verbatim>\<open>value\<close> entry.\<close>

definition ex_stored :: "string \<Rightarrow> string \<Rightarrow> json" where
  "ex_stored d v = JDict [(''age'', JDict (ex_item d @ [(''value'', JStr v)]))]"

text \<open>
  A manager with empty tables and an empty cache, and one with a callback registered for
  the category \<^verbatim>\<open>PURGE\<close>.
\<close>

definition empty_manager :: ConfigurationManager where
  "empty_manager = \<lparr>configuration = [], category_children = [],
     cacheManager = ConfigurationCache_init, registered_interests = [],
     audit_log = [], storage_writes = [], callbacks_run = []\<rparr>"

definition ex_manager :: "json \<Rightarrow> ConfigurationManager" where
  "ex_manager stored = empty_manager\<lparr>
     configuration := [(''PURGE'', \<lparr>description = ''purge'', cat_value = stored,
                                    display_name = ''PURGE''\<rparr>)],
     registered_interests := [(''PURGE'', [''foglamp.callback''])]\<rparr>"

text \<open>
  Creating the categories \<open>names\<close> one after the other from the example value, at the clock
  readings 1, 2, ...
\<close>

fun create_all :: "nat \<Rightarrow> string list \<Rightarrow> ConfigurationManager \<Rightarrow> ConfigurationManager" where
  "create_all now [] s = s"
| "create_all now (name # names) s =
     create_all (Suc now) names
       (snd (create_category ex_lib now name (ex_category ''72'') [] False None s))"

text \<open>Eleven category names, one more than the cache holds.\<close>

definition ex_names :: "string list" where
  "ex_names = [''cat01'', ''cat02'', ''cat03'', ''cat04'', ''cat05'', ''cat06'', ''cat07'',
     ''cat08'', ''cat09'', ''cat10'', ''cat11'']"

text \<open>
  The condition of the bulk update under which nothing is written: every supplied item
  passes the checks of the first loop, and its cleaned new value equals (\<^verbatim>\<open>==\<close>) the
  current value entry of the item in \<open>cat_info\<close>.
\<close>

definition all_unchanged :: "pylib \<Rightarrow> json \<Rightarrow> (string \<times> json) list \<Rightarrow> bool" where
  "all_unchanged lib cat_info config_item_list =
     list_all (\<lambda>(item_name, new_val).
        case bulk_check_item lib cat_info item_name new_val of
          Inl x \<Rightarrow> False
        | Inr (old_value, new_val') \<Rightarrow> py_eq old_value new_val')
       config_item_list"

text \<open>
  What the merge makes of one new item: with no stored item of its name it is kept, else
  its \<^verbatim>\<open>value\<close> entry is set to \<^verbatim>\<open>item_val_storage.get('value')\<close>.
\<close>

definition merge_item :: "item \<Rightarrow> item option \<Rightarrow> item" where
  "merge_item item_val_new stored =
     (case stored of
        None \<Rightarrow> item_val_new
      | Some item_val_storage \<Rightarrow>
          AList.update ''value''
            (case map_of item_val_storage ''value'' of None \<Rightarrow> JNull | Some v \<Rightarrow> v)
            item_val_new)"

text \<open>\<^verbatim>\<open>"deprecated" in item_val and item_val['deprecated'] == 'true'\<close>.\<close>

definition is_deprecated :: "item \<Rightarrow> bool" where
  "is_deprecated item_val = (map_of item_val ''deprecated'' = Some (JStr ''true''))"

text \<open>The example item marked deprecated, as validation prepares it.\<close>

definition ex_deprecated_item :: item where
  "ex_deprecated_item =
     ex_item ''100'' @ [(''deprecated'', JStr ''true''), (''value'', JStr ''100'')]"

text \<open>
  A frame condition for the recursive delete: from \<open>s\<close> to \<open>s'\<close> no parent-child edge was
  added and every row of the \<^verbatim>\<open>configuration\<close> table whose key is outside \<open>D\<close> is as it
  was.
\<close>

definition deletes_within :: "ConfigurationManager \<Rightarrow> ConfigurationManager \<Rightarrow> string set \<Rightarrow> bool" where
  "deletes_within s s' D =
     (set (category_children s') \<subseteq> set (category_children s)
      \<and> (\<forall>k. k \<notin> D \<longrightarrow> map_of (configuration s') k = map_of (configuration s) k))"

text \<open>The tree \<^verbatim>\<open>A \<rightarrow> B \<rightarrow> SCHEDULER\<close> of categories, and the reserved category alone.\<close>

definition ex_row :: category_row where
  "ex_row = \<lparr>description = ''d'', cat_value = JDict [], display_name = ''n''\<rparr>"

definition ex_tree :: ConfigurationManager where
  "ex_tree = empty_manager\<lparr>
     configuration := [(''A'', ex_row), (''B'', ex_row), (''SCHEDULER'', ex_row)],
     category_children := [(''A'', ''B''), (''B'', ''SCHEDULER'')]\<rparr>"








section \<open>Scheduler: results\<close>

text \<open>
  C5. For an exclusive INTERVAL schedule with \<open>repeat_seconds = 10\<close> whose task completes
  35 seconds after its fire time (here 1000), the claim puts the next fire at
  \<open>prev_next + 50\<close>. The code adds the number of missed periods, \<open>ceil(35 / 10) = 4\<close>, to
  the 10 seconds instead of multiplying by it: the next fire time becomes \<open>prev_next + 14\<close>,
  which is still before the completion time \<open>prev_next + 35\<close>.
\<close>

theorem schedule_next_task_exclusive_35:
  "map_option (\<lambda>(b, s). (b, map_of (schedule_executions s) ''s1''))
     (case schedule_next_task local_add 1035 (ex_scheduler [] 0) ex_schedule of
        Inl e \<Rightarrow> None | Inr r \<Rightarrow> Some r)
   = Some (True, Some \<lparr>next_start_time = Some 1014, task_processes = []\<rparr>)
   \<and> (1014 :: rat) \<noteq> 1000 + 50 \<and> (1014 :: rat) < 1035"
  by (simp add: schedule_next_task_def ex_scheduler_def ex_schedule_def ceiling_eq_iff)

subsection \<open>\<^verbatim>\<open>stop\<close>\<close>
























section \<open>Configuration manager: results\<close>

subsection \<open>The type validator\<close>

lemma valid_type_strings_cases:
  "t \<in> set valid_type_strings \<Longrightarrow>
   t = ''IPv4'' \<or> t = ''IPv6'' \<or> t = ''JSON'' \<or> t = ''URL'' \<or> t = ''X509 certificate'' \<or>
   t = ''boolean'' \<or> t = ''enumeration'' \<or> t = ''float'' \<or> t = ''integer'' \<or> t = ''password'' \<or>
   t = ''script'' \<or> t = ''string''"
  by (simp add: valid_type_strings_def)

lemma validate_type_value_unvalidated:
  "t \<in> {''password'', ''X509 certificate'', ''script'', ''enumeration''} \<Longrightarrow>
   validate_type_value lib (JStr t) v = Inr RNone"
  by (auto simp: validate_type_value_def)

text \<open>
  C9 (as stated, refuted). For the type \<^verbatim>\<open>password\<close>, which is in the valid type set, the
  validator does not return a boolean: control falls off the end of the \<^verbatim>\<open>if\<close> chain and
  it returns \<^verbatim>\<open>None\<close>.
\<close>

theorem validate_type_value_not_boolean:
  "\<not> (\<forall>t \<in> set valid_type_strings. \<forall>v. \<exists>b.
        validate_type_value ex_lib (JStr t) v = Inr (RBool b))"
proof
  assume "\<forall>t \<in> set valid_type_strings. \<forall>v. \<exists>b.
        validate_type_value ex_lib (JStr t) v = Inr (RBool b)"
  then have "\<exists>b. validate_type_value ex_lib (JStr ''password'') (JStr ''secret'') = Inr (RBool b)"
    by (simp add: valid_type_strings_def)
  then show False by (simp add: validate_type_value_def)
qed

text \<open>
  C9 (amended). For every type of the valid type set and every value, the validator, when
  it returns, returns \<^verbatim>\<open>None\<close> for password, X509 certificate, script and enumeration,
  the address object or \<^verbatim>\<open>False\<close> for IPv4 and IPv6, and a boolean for the six other
  types. For password, X509 certificate and script it returns \<^verbatim>\<open>None\<close> for every value
  without raising, and \<^verbatim>\<open>None\<close> is not \<^verbatim>\<open>False\<close>: every value of those types passes the
  \<^verbatim>\<open>is False\<close> check of the create and update paths.
\<close>

theorem validate_type_value_results:
  assumes "t \<in> set valid_type_strings"
  shows "(case validate_type_value lib (JStr t) v of
            Inl e \<Rightarrow> True
          | Inr r \<Rightarrow>
              (if t \<in> {''password'', ''X509 certificate'', ''script'', ''enumeration''} then r = RNone
               else if t \<in> {''IPv4'', ''IPv6''} then r = RBool False \<or> r = RAddress v
               else \<exists>b. r = RBool b))
         \<and> (t \<in> {''password'', ''X509 certificate'', ''script''} \<longrightarrow>
              validate_type_value lib (JStr t) v = Inr RNone \<and> passes_validation lib (JStr t) v)"
proof -
  have unval: "t \<in> {''password'', ''X509 certificate'', ''script''} \<longrightarrow>
      validate_type_value lib (JStr t) v = Inr RNone \<and> passes_validation lib (JStr t) v"
    by (auto simp: validate_type_value_def passes_validation_def is_False_def)
  have res: "case validate_type_value lib (JStr t) v of
            Inl e \<Rightarrow> True
          | Inr r \<Rightarrow>
              (if t \<in> {''password'', ''X509 certificate'', ''script'', ''enumeration''} then r = RNone
               else if t \<in> {''IPv4'', ''IPv6''} then r = RBool False \<or> r = RAddress v
               else \<exists>b. r = RBool b)"
    using valid_type_strings_cases[OF assms]
    apply (elim disjE)
               apply (auto simp: validate_type_value_def str_to_ipaddress_def split: option.splits)[1]
              apply (auto simp: validate_type_value_def str_to_ipaddress_def split: option.splits)[1]
             apply (auto simp: validate_type_value_def split: json.splits sum.splits)[1]
            apply (simp add: validate_type_value_def)
           apply (simp add: validate_type_value_def)
          apply (auto simp: validate_type_value_def str_to_bool_def split: json.splits)[1]
         apply (simp add: validate_type_value_def)
        apply (auto simp: validate_type_value_def str_to_float_def split: option.splits)[1]
       apply (auto simp: validate_type_value_def str_to_int_def split: option.splits)[1]
      apply (simp add: validate_type_value_def)
     apply (simp add: validate_type_value_def)
    apply (simp add: validate_type_value_def)
    done
  from res unval show ?thesis by blast
qed

theorem validate_type_value_results_witness:
  "''password'' \<in> set valid_type_strings
   \<and> validate_type_value ex_lib (JStr ''password'') (JInt 5) = Inr RNone
   \<and> passes_validation ex_lib (JStr ''password'') (JInt 5)
   \<and> ''integer'' \<in> set valid_type_strings
   \<and> validate_type_value ex_lib (JStr ''integer'') (JStr ''12a'') = Inr (RBool False)"
proof -
  have m: "''password'' \<in> set valid_type_strings" by (simp add: valid_type_strings_def)
  have i: "''integer'' \<in> set valid_type_strings" by (simp add: valid_type_strings_def)
  have e: "validate_type_value ex_lib (JStr ''integer'') (JStr ''12a'') = Inr (RBool False)"
    by (simp add: validate_type_value_def str_to_int_def ex_lib_def ex_is_int_def)
  from validate_type_value_results[OF m, where lib = ex_lib and v = "JInt 5"] m i e show ?thesis by simp
qed

subsection \<open>The cache bound\<close>

text \<open>
  C2. Eleven categories are created one after the other in an empty manager; the cache
  then holds ten of them (the first was evicted). Creating the first category again with
  another default goes through the update path, which writes the category into the cache
  dictionary directly: the call returns normally and the cache holds eleven categories,
  one more than \<^verbatim>\<open>MAX_CACHE_SIZE\<close>.
\<close>

theorem update_category_exceeds_cache_bound:
  "map fst (configuration (create_all 1 ex_names empty_manager)) = ex_names
   \<and> ConfigurationCache_size (cacheManager
     (create_all 1 ex_names
        empty_manager)) = 10
   \<and> map fst (cache (cacheManager
     (create_all 1 ex_names
        empty_manager))) = tl ex_names
   \<and> fst (create_category ex_lib 12 ''cat01'' (ex_category ''100'') [] False None
     (create_all 1 ex_names
        empty_manager)) = None
   \<and> ConfigurationCache_size (cacheManager (snd
     (create_category ex_lib 12 ''cat01'' (ex_category ''100'') [] False None
       (create_all 1 ex_names
          empty_manager)))) = 11
   \<and> MAX_CACHE_SIZE = 10"
  by code_simp

subsection \<open>Setting a value that is already set\<close>

text \<open>
  C3. Storage holds the category \<^verbatim>\<open>PURGE\<close> whose item \<^verbatim>\<open>age\<close> has the value
  \<^verbatim>\<open>"24"\<close>, and the cache is empty. Setting \<^verbatim>\<open>age\<close> to \<^verbatim>\<open>"24"\<close> again is not a no-op
  on this cache-miss path: the new value is compared with the whole item, so a storage
  update is issued, a \<^verbatim>\<open>CONCH\<close> audit entry with equal old and new values is written and
  the callback runs. Once the category is cached (here by \<^verbatim>\<open>get_category_all_items\<close>) the
  same call changes nothing but the access statistics of the cache.
\<close>

theorem set_same_value_on_cache_miss_updates:
  "set_category_item_value_entry ex_lib 5 ''PURGE'' ''age'' (JStr ''24'')
     (ex_manager (ex_stored ''72'' ''24''))
   = (None, ex_manager (ex_stored ''72'' ''24'')\<lparr>
        cacheManager := ConfigurationCache_init\<lparr>miss := 1\<rparr>,
        audit_log := [(''CONCH'', JDict [(''category'', JStr ''PURGE''), (''item'', JStr ''age''),
                         (''oldValue'', JStr ''24''), (''newValue'', JStr ''24'')])],
        storage_writes := [UpdateItemValue ''PURGE'' ''age'' (JStr ''24'')],
        callbacks_run := [(''foglamp.callback'', ''PURGE'')]\<rparr>)
   \<and> (let s = snd (get_category_all_items 4 ''PURGE'' (ex_manager (ex_stored ''72'' ''24'')));
           s' = snd (set_category_item_value_entry ex_lib 5 ''PURGE'' ''age'' (JStr ''24'') s)
       in audit_log s' = [] \<and> storage_writes s' = [] \<and> callbacks_run s' = []
          \<and> configuration s' = configuration s)"
  by code_simp

subsection \<open>Re-creating a category whose stored value is corrupt\<close>

text \<open>
  C6. Storage holds \<^verbatim>\<open>PURGE\<close> with an item that has no \<^verbatim>\<open>value\<close> entry, so the stored
  value fails re-validation. \<^verbatim>\<open>create_category\<close> with a valid new value (default
  \<^verbatim>\<open>"100"\<close>) then persists nothing: the \<^verbatim>\<open>except\<close> branch only logs, the update is
  reached from the \<^verbatim>\<open>else\<close> branch alone, and the call returns after running the
  callback. The stored row, the storage writes and the cache are as before.
\<close>

theorem create_category_corrupt_storage_not_persisted:
  "validate_category_val ex_lib (ex_category ''100'') True
     = Inr [(''age'', ex_item ''100'' @ [(''value'', JStr ''100'')])]
   \<and> validate_category_val ex_lib (ex_category ''72'') False = Inl ValueError
   \<and> create_category ex_lib 5 ''PURGE'' (ex_category ''100'') ''purge'' False None
        (ex_manager (ex_category ''72''))
      = (None, ex_manager (ex_category ''72'')
                 \<lparr>callbacks_run := [(''foglamp.callback'', ''PURGE'')]\<rparr>)"
  by code_simp

subsection \<open>Bulk update with nothing to change\<close>

lemma bulk_collect_unchanged:
  "all_unchanged lib cat_info items \<Longrightarrow> bulk_collect lib cat_info items = Inr ([], [])"
proof (induction items)
  case Nil
  then show ?case by simp
next
  case (Cons a items)
  obtain item_name new_val where a: "a = (item_name, new_val)" by (cases a)
  from Cons.prems a obtain old_value new_val' where
    chk: "bulk_check_item lib cat_info item_name new_val = Inr (old_value, new_val')"
    and eq: "py_eq old_value new_val'" and rest: "all_unchanged lib cat_info items"
    by (auto simp: all_unchanged_def split: sum.splits)
  from Cons.IH[OF rest] chk eq a show ?case by simp
qed

lemma get_category_all_items_frame:
  assumes "get_category_all_items now category_name s = (r, s1)"
  shows "configuration s1 = configuration s \<and> category_children s1 = category_children s
     \<and> registered_interests s1 = registered_interests s \<and> audit_log s1 = audit_log s
     \<and> storage_writes s1 = storage_writes s \<and> callbacks_run s1 = callbacks_run s"
  using assms
  by (auto simp: get_category_all_items_def ConfigurationCache_contains_def Let_def
           split: option.splits sum.splits if_splits)

lemma get_category_all_items_hit:
  assumes "map_of (cache (cacheManager s)) category_name = Some e"
  shows "get_category_all_items now category_name s =
     (Inr (entry_value e),
      s\<lparr>cacheManager := (cacheManager s)\<lparr>hit := hit (cacheManager s) + 1,
           cache := AList.update category_name
             (e\<lparr>date_accessed := Some now,
                entry_hit := Some ((case entry_hit e of None \<Rightarrow> 0 | Some h \<Rightarrow> h) + 1)\<rparr>)
             (cache (cacheManager s))\<rparr>\<rparr>)"
  using assms
  by (simp add: get_category_all_items_def ConfigurationCache_contains_def update_conv')

lemma get_category_all_items_miss:
  assumes "map_of (cache (cacheManager s)) category_name = None"
    and "get_category_all_items now category_name s = (Inr cat_info, s1)"
    and "cat_info \<noteq> JNull"
  shows "cat_info = read_category_val s category_name"
    and "map_of (cache (cacheManager s1)) category_name =
               Some \<lparr>date_accessed = Some now, entry_value = cat_info,
                     entry_displayName = category_name, entry_hit = None\<rparr>"
  using assms
  by (auto simp: get_category_all_items_def ConfigurationCache_contains_def
        ConfigurationCache_update_def update_conv' Let_def
        split: sum.splits if_splits)

text \<open>
  C10 (as stated, refuted). With the category in storage and not in the cache, a bulk
  update whose only new value equals the stored one returns without a storage write, an
  audit entry or a callback, but the cache entry of the category is not left unchanged:
  there was none before the call and there is one after it.
\<close>

theorem bulk_update_unchanged_fills_cache:
  "fst (update_configuration_item_bulk ex_lib 5 ''PURGE'' [(''age'', JStr ''24'')]
          (ex_manager (ex_stored ''72'' ''24''))) = None
   \<and> storage_writes (snd (update_configuration_item_bulk ex_lib 5 ''PURGE'' [(''age'', JStr ''24'')]
          (ex_manager (ex_stored ''72'' ''24'')))) = []
   \<and> map_of (cache (cacheManager (ex_manager (ex_stored ''72'' ''24'')))) ''PURGE'' = None
   \<and> map_of (cache (cacheManager (snd (update_configuration_item_bulk ex_lib 5 ''PURGE''
          [(''age'', JStr ''24'')] (ex_manager (ex_stored ''72'' ''24'')))))) ''PURGE''
      = Some \<lparr>date_accessed = Some 5, entry_value = ex_stored ''72'' ''24'',
               entry_displayName = ''PURGE'', entry_hit = None\<rparr>"
  by code_simp

text \<open>
  C10 (amended). When the category is read, through the cache, as \<open>cat_info\<close> and every
  supplied item passes validation and cleaning with a new value equal to the item's
  current value in \<open>cat_info\<close>, the bulk update returns with the manager as that read
  left it: the storage tables, the storage writes, the audit log and the callbacks run
  are as before the call. A category that was cached keeps its cached value and display
  name, with its access time and hit count refreshed; one that was not cached is now
  cached with the value read from storage.
\<close>

theorem bulk_update_unchanged_no_effect:
  assumes "get_category_all_items now category_name s = (Inr cat_info, s1)"
    and "cat_info \<noteq> JNull"
    and "all_unchanged lib cat_info config_item_list"
  shows "update_configuration_item_bulk lib now category_name config_item_list s = (None, s1)
     \<and> configuration s1 = configuration s \<and> category_children s1 = category_children s
     \<and> storage_writes s1 = storage_writes s \<and> audit_log s1 = audit_log s
     \<and> callbacks_run s1 = callbacks_run s
     \<and> (\<forall>e. map_of (cache (cacheManager s)) category_name = Some e \<longrightarrow>
           map_of (cache (cacheManager s1)) category_name =
             Some (e\<lparr>date_accessed := Some now,
                      entry_hit := Some ((case entry_hit e of None \<Rightarrow> 0 | Some h \<Rightarrow> h) + 1)\<rparr>))
     \<and> (map_of (cache (cacheManager s)) category_name = None \<longrightarrow>
           cat_info = read_category_val s category_name
           \<and> map_of (cache (cacheManager s1)) category_name =
               Some \<lparr>date_accessed = Some now, entry_value = cat_info,
                     entry_displayName = category_name, entry_hit = None\<rparr>)"
proof -
  have ret: "update_configuration_item_bulk lib now category_name config_item_list s = (None, s1)"
    using assms(1,2) bulk_collect_unchanged[OF assms(3)]
    by (simp add: update_configuration_item_bulk_def)
  have hit: "map_of (cache (cacheManager s1)) category_name =
             Some (e\<lparr>date_accessed := Some now,
                      entry_hit := Some ((case entry_hit e of None \<Rightarrow> 0 | Some h \<Rightarrow> h) + 1)\<rparr>)"
    if "map_of (cache (cacheManager s)) category_name = Some e" for e
    using get_category_all_items_hit[OF that, of now] assms(1) by (auto simp: update_conv')
  have miss: "cat_info = read_category_val s category_name
           \<and> map_of (cache (cacheManager s1)) category_name =
               Some \<lparr>date_accessed = Some now, entry_value = cat_info,
                     entry_displayName = category_name, entry_hit = None\<rparr>"
    if "map_of (cache (cacheManager s)) category_name = None"
    using get_category_all_items_miss[OF that assms(1,2)] by simp
  from ret hit miss get_category_all_items_frame[OF assms(1)] show ?thesis by blast
qed

theorem bulk_update_unchanged_no_effect_witness:
  "get_category_all_items 5 ''PURGE'' (ex_manager (ex_stored ''72'' ''24''))
     = (Inr (ex_stored ''72'' ''24''),
        ex_manager (ex_stored ''72'' ''24'')\<lparr>cacheManager :=
          \<lparr>cache = [(''PURGE'', \<lparr>date_accessed = Some 5, entry_value = ex_stored ''72'' ''24'',
                                  entry_displayName = ''PURGE'', entry_hit = None\<rparr>)],
           max_cache_size = 10, hit = 0, miss = 1\<rparr>\<rparr>)
   \<and> ex_stored ''72'' ''24'' \<noteq> JNull
   \<and> all_unchanged ex_lib (ex_stored ''72'' ''24'') [(''age'', JStr ''24'')]
   \<and> update_configuration_item_bulk ex_lib 5 ''PURGE'' [(''age'', JStr ''24'')]
        (ex_manager (ex_stored ''72'' ''24''))
      = (None,
         ex_manager (ex_stored ''72'' ''24'')\<lparr>cacheManager :=
          \<lparr>cache = [(''PURGE'', \<lparr>date_accessed = Some 5, entry_value = ex_stored ''72'' ''24'',
                                  entry_displayName = ''PURGE'', entry_hit = None\<rparr>)],
           max_cache_size = 10, hit = 0, miss = 1\<rparr>\<rparr>)"
proof -
  have g: "get_category_all_items 5 ''PURGE'' (ex_manager (ex_stored ''72'' ''24''))
     = (Inr (ex_stored ''72'' ''24''),
        ex_manager (ex_stored ''72'' ''24'')\<lparr>cacheManager :=
          \<lparr>cache = [(''PURGE'', \<lparr>date_accessed = Some 5, entry_value = ex_stored ''72'' ''24'',
                                  entry_displayName = ''PURGE'', entry_hit = None\<rparr>)],
           max_cache_size = 10, hit = 0, miss = 1\<rparr>\<rparr>)"
    by code_simp
  have n: "ex_stored ''72'' ''24'' \<noteq> JNull" by (simp add: ex_stored_def)
  have u: "all_unchanged ex_lib (ex_stored ''72'' ''24'') [(''age'', JStr ''24'')]"
    by code_simp
  from bulk_update_unchanged_no_effect[OF g n u] g n u show ?thesis by simp
qed

subsection \<open>Merging a new category value with the stored one\<close>

lemma is_deprecated_merge_item [simp]:
  "is_deprecated (merge_item iv x) = is_deprecated iv"
  by (cases x) (simp_all add: is_deprecated_def merge_item_def update_conv')

lemma merge_items_step:
  "merge_items name ((n, iv) # rest) st s =
     (let iv' = merge_item iv (map_of st n);
          st1 = (case map_of st n of None \<Rightarrow> st | Some _ \<Rightarrow> AList.delete n st)
      in if is_deprecated iv' then
           (case map_of iv' ''value'' of
              None \<Rightarrow> (Inl KeyError, s)
            | Some old_value \<Rightarrow>
                (case merge_items name rest st1
                        (audit_information ''CONCH''
                           (JDict [(''category'', JStr name), (''item'', JStr n),
                                   (''oldValue'', old_value), (''newValue'', JStr ''deprecated'')])
                           s) of
                   (Inl e, s') \<Rightarrow> (Inl e, s')
                 | (Inr (new_copy, st', deps), s') \<Rightarrow>
                     (Inr ((n, iv') # new_copy, st', n # deps), s')))
         else
           (case merge_items name rest st1 s of
              (Inl e, s') \<Rightarrow> (Inl e, s')
            | (Inr (new_copy, st', deps), s') \<Rightarrow> (Inr ((n, iv') # new_copy, st', deps), s')))"
  by (cases "map_of st n") (simp_all add: merge_item_def is_deprecated_def Let_def)

lemma merge_item_has_value:
  "map_of iv ''value'' \<noteq> None \<Longrightarrow> map_of (merge_item iv x) ''value'' \<noteq> None"
  by (cases x) (simp_all add: merge_item_def update_conv')

lemma merge_items_returns:
  "list_all (\<lambda>(n, iv). map_of iv ''value'' \<noteq> None) new \<Longrightarrow>
   \<exists>new' st' deps s'. merge_items name new st s = (Inr (new', st', deps), s')"
proof (induction new arbitrary: st s)
  case Nil
  then show ?case by simp
next
  case (Cons a new)
  obtain n iv where a: "a = (n, iv)" by (cases a)
  from Cons.prems a have v: "map_of iv ''value'' \<noteq> None"
    and rest: "list_all (\<lambda>(n, iv). map_of iv ''value'' \<noteq> None) new"
    by auto
  from merge_item_has_value[OF v] obtain old where
    old: "map_of (merge_item iv (map_of st n)) ''value'' = Some old" by blast
  define st1 where "st1 = (case map_of st n of None \<Rightarrow> st | Some _ \<Rightarrow> AList.delete n st)"
  show ?case
  proof (cases "is_deprecated iv")
    case True
    from Cons.IH[OF rest, of st1 "audit_information ''CONCH''
                           (JDict [(''category'', JStr name), (''item'', JStr n),
                                   (''oldValue'', old), (''newValue'', JStr ''deprecated'')]) s"]
    obtain new' st' deps s' where "merge_items name new st1 (audit_information ''CONCH''
                           (JDict [(''category'', JStr name), (''item'', JStr n),
                                   (''oldValue'', old), (''newValue'', JStr ''deprecated'')]) s)
        = (Inr (new', st', deps), s')" by blast
    then show ?thesis using True old a by (simp add: merge_items_step st1_def[symmetric] del: merge_items.simps)
  next
    case False
    from Cons.IH[OF rest, of st1 s]
    obtain new' st' deps s' where "merge_items name new st1 s = (Inr (new', st', deps), s')" by blast
    then show ?thesis using False a by (simp add: merge_items_step st1_def[symmetric] del: merge_items.simps)
  qed
qed

lemma merge_items_props:
  assumes "merge_items name new st s = (Inr (new', st', deps), s')"
    and "distinct (map fst new)"
  shows "(\<forall>n iv. map_of new n = Some iv \<longrightarrow> map_of new' n = Some (merge_item iv (map_of st n)))
       \<and> (\<forall>n. map_of new n = None \<longrightarrow> map_of new' n = None)
       \<and> (\<forall>n. n \<in> set deps \<longleftrightarrow> (\<exists>iv. map_of new n = Some iv \<and> is_deprecated iv))
       \<and> (\<forall>n. map_of st' n = (if n \<in> fst ` set new then None else map_of st n))"
  using assms
proof (induction new arbitrary: st s new' st' deps s')
  case Nil
  then show ?case by simp
next
  case (Cons a new)
  obtain m ivm where a: "a = (m, ivm)" by (cases a)
  define st1 where "st1 = (case map_of st m of None \<Rightarrow> st | Some _ \<Rightarrow> AList.delete m st)"
  define s1 where "s1 = (if is_deprecated ivm then
       audit_information ''CONCH''
         (JDict [(''category'', JStr name), (''item'', JStr m),
                 (''oldValue'', the (map_of (merge_item ivm (map_of st m)) ''value'')),
                 (''newValue'', JStr ''deprecated'')]) s else s)"
  have st1: "map_of st1 n = (if n = m then None else map_of st n)" for n
    by (cases "map_of st m") (auto simp: st1_def delete_conv')
  from Cons.prems(1) a obtain new1 deps1 where
    rec: "merge_items name new st1 s1 = (Inr (new1, st', deps1), s')"
    and new': "new' = (m, merge_item ivm (map_of st m)) # new1"
    and deps: "deps = (if is_deprecated ivm then m # deps1 else deps1)"
    by (auto simp: merge_items_step st1_def[symmetric] s1_def Let_def
             simp del: merge_items.simps split: option.splits sum.splits prod.splits if_splits)
  from Cons.prems(2) a have d: "distinct (map fst new)" and m: "m \<notin> fst ` set new" by auto
  note IH = Cons.IH[OF rec d]
  have m_none: "map_of new m = None" using m by (simp add: map_of_eq_None_iff)
  show ?case
  proof (intro conjI allI impI)
    fix n iv assume "map_of (a # new) n = Some iv"
    then show "map_of new' n = Some (merge_item iv (map_of st n))"
      using IH st1 a new' by (auto split: if_splits)
  next
    fix n assume "map_of (a # new) n = None"
    then show "map_of new' n = None" using IH a new' by (auto split: if_splits)
  next
    fix n
    show "n \<in> set deps \<longleftrightarrow> (\<exists>iv. map_of (a # new) n = Some iv \<and> is_deprecated iv)"
      using IH a deps m_none by auto
  next
    fix n
    show "map_of st' n = (if n \<in> fst ` set (a # new) then None else map_of st n)"
      using IH st1 a by auto
  qed
qed

lemma map_of_fold_delete:
  "map_of (fold AList.delete ds xs) n = (if n \<in> set ds then None else map_of xs n)"
  by (induction ds arbitrary: xs) (auto simp: delete_conv')

lemma map_of_fold_update_other:
  "map_of st n = None \<Longrightarrow>
   map_of (fold (\<lambda>(k, v). AList.update k v) st xs) n = map_of xs n"
proof (induction st arbitrary: xs)
  case Nil
  then show ?case by simp
next
  case (Cons a st)
  obtain k v where a: "a = (k, v)" by (cases a)
  with Cons.prems have "k \<noteq> n" and "map_of st n = None" by (auto split: if_splits)
  with Cons.IH[of "AList.update k v xs"] a show ?case by (simp add: update_conv')
qed

text \<open>
  C4 (as stated, refuted). The item \<^verbatim>\<open>age\<close> is in both the prepared new value and the
  stored value, and is marked deprecated in the new one: the merged result has no item
  \<^verbatim>\<open>age\<close> at all, so no \<^verbatim>\<open>value\<close> entry equal to the stored \<^verbatim>\<open>"24"\<close>.
\<close>

theorem merge_drops_deprecated_item:
  "map_of [(''age'', ex_deprecated_item)] ''age'' \<noteq> None
   \<and> map_of [(''age'', ex_item ''72'' @ [(''value'', JStr ''24'')])] ''age'' \<noteq> None
   \<and> fst (merge_category_vals [(''age'', ex_deprecated_item)]
             [(''age'', ex_item ''72'' @ [(''value'', JStr ''24'')])] False ''PURGE'' empty_manager)
      = Inr []"
  by code_simp

text \<open>
  C4 (amended). For a new category value with distinct item names whose items all have a
  \<^verbatim>\<open>value\<close> entry (as validation prepares them), the merge returns, and for every item
  name present in both the new and the stored value: if the new item is not marked
  deprecated, the merged result holds the new item with its \<^verbatim>\<open>value\<close> entry replaced by
  the stored item's \<^verbatim>\<open>value\<close>, every other entry being that of the new definition; if it
  is marked deprecated, the merged result does not hold the item.
\<close>

theorem merge_preserves_stored_values:
  assumes "distinct (map fst category_val_new)"
    and "list_all (\<lambda>(n, iv). map_of iv ''value'' \<noteq> None) category_val_new"
    and "map_of category_val_new item_name = Some item_val_new"
    and "map_of category_val_storage item_name = Some item_val_storage"
  shows "\<exists>merged s'.
     merge_category_vals category_val_new category_val_storage keep_original_items category_name s
       = (Inr merged, s')
     \<and> (if is_deprecated item_val_new then map_of merged item_name = None
        else \<exists>merged_item. map_of merged item_name = Some merged_item
          \<and> merged_item = AList.update ''value''
               (case map_of item_val_storage ''value'' of None \<Rightarrow> JNull | Some v \<Rightarrow> v) item_val_new
          \<and> map_of merged_item ''value''
               = Some (case map_of item_val_storage ''value'' of None \<Rightarrow> JNull | Some v \<Rightarrow> v)
          \<and> (\<forall>entry_name. entry_name \<noteq> ''value'' \<longrightarrow>
                map_of merged_item entry_name = map_of item_val_new entry_name))"
proof -
  from merge_items_returns[OF assms(2)] obtain new' st' deps s' where
    mi: "merge_items category_name category_val_new category_val_storage s
           = (Inr (new', st', deps), s')" by blast
  note props = merge_items_props[OF mi assms(1)]
  define new2 where "new2 = fold AList.delete deps new'"
  define merged where "merged = (if keep_original_items
       then fold (\<lambda>(k, v). AList.update k v) st' new2 else new2)"
  have ret: "merge_category_vals category_val_new category_val_storage keep_original_items
               category_name s = (Inr merged, s')"
    using mi by (simp add: merge_category_vals_def merged_def new2_def Let_def)
  have in_new: "item_name \<in> fst ` set category_val_new"
    using assms(3) by (metis map_of_eq_None_iff option.distinct(1))
  have st'_none: "map_of st' item_name = None" using props in_new by simp
  have m2: "map_of merged item_name = map_of new2 item_name"
    using map_of_fold_update_other[OF st'_none] by (simp add: merged_def)
  have n2: "map_of new2 item_name =
      (if is_deprecated item_val_new then None
       else Some (merge_item item_val_new (Some item_val_storage)))"
    using props assms(3,4) by (simp add: new2_def map_of_fold_delete)
  show ?thesis
    using ret m2 n2 by (auto simp: merge_item_def update_conv')
qed

theorem merge_preserves_stored_values_witness:
  "distinct (map fst [(''age'', ex_item ''100'' @ [(''value'', JStr ''100'')])])
   \<and> list_all (\<lambda>(n, iv). map_of iv ''value'' \<noteq> None)
        [(''age'', ex_item ''100'' @ [(''value'', JStr ''100'')])]
   \<and> fst (merge_category_vals [(''age'', ex_item ''100'' @ [(''value'', JStr ''100'')])]
        [(''age'', ex_item ''72'' @ [(''value'', JStr ''24'')])] False ''PURGE'' empty_manager)
      = Inr [(''age'', ex_item ''100'' @ [(''value'', JStr ''24'')])]
   \<and> read_category_val
        (snd (create_category ex_lib 5 ''PURGE'' (ex_category ''100'') ''purge'' False None
                (ex_manager (ex_stored ''72'' ''24'')))) ''PURGE''
      = ex_stored ''100'' ''24''"
proof -
  have d: "distinct (map fst [(''age'', ex_item ''100'' @ [(''value'', JStr ''100'')])])" by simp
  have v: "list_all (\<lambda>(n, iv). map_of iv ''value'' \<noteq> None)
        [(''age'', ex_item ''100'' @ [(''value'', JStr ''100'')])]"
    by (simp add: ex_item_def)
  have n: "map_of [(''age'', ex_item ''100'' @ [(''value'', JStr ''100'')])] ''age''
             = Some (ex_item ''100'' @ [(''value'', JStr ''100'')])" by simp
  have st: "map_of [(''age'', ex_item ''72'' @ [(''value'', JStr ''24'')])] ''age''
             = Some (ex_item ''72'' @ [(''value'', JStr ''24'')])" by simp
  have m: "fst (merge_category_vals [(''age'', ex_item ''100'' @ [(''value'', JStr ''100'')])]
        [(''age'', ex_item ''72'' @ [(''value'', JStr ''24'')])] False ''PURGE'' empty_manager)
      = Inr [(''age'', ex_item ''100'' @ [(''value'', JStr ''24'')])]"
    by code_simp
  have c: "read_category_val
        (snd (create_category ex_lib 5 ''PURGE'' (ex_category ''100'') ''purge'' False None
                (ex_manager (ex_stored ''72'' ''24'')))) ''PURGE''
      = ex_stored ''100'' ''24''"
    by code_simp
  from merge_preserves_stored_values[OF d v n st, of False "''PURGE''" empty_manager] d v m c
  show ?thesis by simp
qed

subsection \<open>Recursive delete and the reserved categories\<close>

lemma deletes_within_refl: "deletes_within s s D"
  by (simp add: deletes_within_def)

lemma deletes_within_trans:
  "deletes_within s s1 D \<Longrightarrow> deletes_within s1 s2 D' \<Longrightarrow> D' \<subseteq> D \<Longrightarrow> deletes_within s s2 D"
  by (auto simp: deletes_within_def)

lemma deletes_within_mono:
  "deletes_within s s' D \<Longrightarrow> D \<subseteq> D' \<Longrightarrow> deletes_within s s' D'"
  by (auto simp: deletes_within_def)

lemma child_names_mono:
  "set edges' \<subseteq> set edges \<Longrightarrow> set (child_names edges' cat) \<subseteq> set (child_names edges cat)"
  by (auto simp: child_names_def)

lemma fetch_descendents_children_member:
  "fetch_descendents_children depth edges cs = Inr ds \<Longrightarrow> c \<in> set cs \<Longrightarrow>
   \<exists>dsc. fetch_descendents depth edges c = Inr dsc \<and> insert c (set dsc) \<subseteq> set ds"
proof (induction cs arbitrary: ds)
  case Nil
  then show ?case by simp
next
  case (Cons a cs)
  from Cons.prems(1) obtain da dr where
    a: "fetch_descendents depth edges a = Inr da"
    and r: "fetch_descendents_children depth edges cs = Inr dr"
    and ds: "ds = a # da @ dr"
    by (auto split: sum.splits)
  show ?case
  proof (cases "c = a")
    case True
    with a ds show ?thesis by auto
  next
    case False
    with Cons.prems(2) have "c \<in> set cs" by simp
    from Cons.IH[OF r this] ds show ?thesis by auto
  qed
qed

lemma delete_children_within:
  assumes rec: "\<And>cat s edges ds. fetch_descendents depth edges cat = Inr ds \<Longrightarrow>
            set (category_children s) \<subseteq> set edges \<Longrightarrow>
            \<exists>s'. delete_recursively depth cat s = (None, s')
                 \<and> deletes_within s s' (insert cat (set ds))"
  shows "(\<forall>c \<in> set cs. \<exists>dsc. fetch_descendents depth edges c = Inr dsc
                               \<and> insert c (set dsc) \<subseteq> D) \<Longrightarrow>
         set (category_children s) \<subseteq> set edges \<Longrightarrow>
         \<exists>s'. delete_children depth cs s = (None, s') \<and> deletes_within s s' D"
proof (induction cs arbitrary: s)
  case Nil
  then show ?case by (simp add: deletes_within_refl)
next
  case (Cons c cs)
  from Cons.prems(1) obtain dsc where
    f: "fetch_descendents depth edges c = Inr dsc" and sub: "insert c (set dsc) \<subseteq> D"
    by auto
  from rec[OF f Cons.prems(2)] obtain s1 where
    d1: "delete_recursively depth c s = (None, s1)"
    and w1: "deletes_within s s1 (insert c (set dsc))" by blast
  from w1 Cons.prems(2) have e1: "set (category_children s1) \<subseteq> set edges"
    by (auto simp: deletes_within_def)
  from Cons.prems(1) have "\<forall>c \<in> set cs. \<exists>dsc. fetch_descendents depth edges c = Inr dsc
                               \<and> insert c (set dsc) \<subseteq> D" by simp
  from Cons.IH[OF this e1] obtain s2 where
    d2: "delete_children depth cs s1 = (None, s2)" and w2: "deletes_within s1 s2 D" by blast
  have "deletes_within s s2 D"
    using deletes_within_mono[OF w1 sub] w2 by (auto simp: deletes_within_def)
  with d1 d2 show ?case by simp
qed

lemma delete_recursively_within:
  "fetch_descendents depth edges cat = Inr ds \<Longrightarrow>
   set (category_children s) \<subseteq> set edges \<Longrightarrow>
   \<exists>s'. delete_recursively depth cat s = (None, s')
        \<and> deletes_within s s' (insert cat (set ds))
        \<and> map_of (configuration s') cat = None"
proof (induction depth arbitrary: edges cat ds s)
  case 0
  then show ?case by simp
next
  case (Suc depth)
  from Suc.prems(1) have fc:
    "fetch_descendents_children depth edges (child_names edges cat) = Inr ds" by simp
  have "\<forall>c \<in> set (child_names (category_children s) cat).
          \<exists>dsc. fetch_descendents depth edges c = Inr dsc \<and> insert c (set dsc) \<subseteq> set ds"
    using fetch_descendents_children_member[OF fc] child_names_mono[OF Suc.prems(2), of cat]
    by blast
  from delete_children_within[where depth = depth and cs = "child_names (category_children s) cat"
         and edges = edges and D = "set ds" and s = s, OF _ this Suc.prems(2)] Suc.IH
  obtain s1 where dc: "delete_children depth (child_names (category_children s) cat) s = (None, s1)"
    and w1: "deletes_within s s1 (set ds)"
    by blast
  show ?case
    using dc w1
    by (auto simp: Let_def deletes_within_def audit_information_def ConfigurationCache_remove_def
          delete_conv')
qed

text \<open>
  C1 (as stated, refuted). The category \<^verbatim>\<open>SCHEDULER\<close> is reserved and has no descendant.
  Deleting it recursively returns without an exception and removes its row: the guard
  looks at the descendants only.
\<close>

theorem recursive_delete_removes_reserved_root:
  "''SCHEDULER'' \<in> set RESERVED_CATG
   \<and> map_of (configuration ex_tree) ''SCHEDULER'' \<noteq> None
   \<and> fst (delete_category_and_children_recursively 1000 ''SCHEDULER'' ex_tree) = None
   \<and> map_of (configuration (snd (delete_category_and_children_recursively 1000 ''SCHEDULER''
        ex_tree))) ''SCHEDULER'' = None"
  by code_simp

text \<open>
  C1 (amended). \<open>depth\<close> is the recursion depth the interpreter allows. For an existing
  category whose list of descendants contains a reserved category, the operation raises
  \<^verbatim>\<open>ValueError\<close> and changes nothing. In every run, every reserved category other than
  the named category itself keeps its row. When the category exists, the descendants are
  fetched and none is reserved, the delete returns and the row of the named category is
  gone, also when that category is itself reserved.
\<close>

theorem recursive_delete_guards_reserved_descendents:
  "(read_category_val s category_name \<noteq> JNull \<longrightarrow>
      fetch_descendents depth (category_children s) category_name = Inr ds \<longrightarrow>
      (\<exists>r \<in> set RESERVED_CATG. r \<in> set ds) \<longrightarrow>
      delete_category_and_children_recursively depth category_name s = (Some ValueError, s))
   \<and> (\<forall>r \<in> set RESERVED_CATG. r \<noteq> category_name \<longrightarrow>
        map_of (configuration (snd (delete_category_and_children_recursively depth category_name s))) r
          = map_of (configuration s) r)
   \<and> (read_category_val s category_name \<noteq> JNull \<longrightarrow>
      fetch_descendents depth (category_children s) category_name = Inr ds \<longrightarrow>
      \<not> (\<exists>r \<in> set RESERVED_CATG. r \<in> set ds) \<longrightarrow>
      fst (delete_category_and_children_recursively depth category_name s) = None
      \<and> map_of (configuration (snd (delete_category_and_children_recursively depth category_name s)))
           category_name = None)"
proof -
  have refuse: "delete_category_and_children_recursively depth category_name s = (Some ValueError, s)"
    if "read_category_val s category_name \<noteq> JNull"
      and "fetch_descendents depth (category_children s) category_name = Inr ds"
      and "\<exists>r \<in> set RESERVED_CATG. r \<in> set ds"
    using that by (auto simp: delete_category_and_children_recursively_def list_ex_iff)
  have keeps: "map_of (configuration (snd (delete_category_and_children_recursively depth
                  category_name s))) r = map_of (configuration s) r"
    if r: "r \<in> set RESERVED_CATG" and ne: "r \<noteq> category_name" for r
  proof (cases "read_category_val s category_name \<noteq> JNull
      \<and> (\<exists>ds'. fetch_descendents depth (category_children s) category_name = Inr ds'
             \<and> \<not> list_ex (\<lambda>catg. catg \<in> set ds') RESERVED_CATG)")
    case True
    then obtain ds' where f: "fetch_descendents depth (category_children s) category_name = Inr ds'"
      and nr: "\<not> list_ex (\<lambda>catg. catg \<in> set ds') RESERVED_CATG"
      and ex: "read_category_val s category_name \<noteq> JNull" by blast
    from delete_recursively_within[OF f subset_refl] obtain s' where
      d: "delete_recursively depth category_name s = (None, s')"
      and w: "deletes_within s s' (insert category_name (set ds'))" by blast
    from nr r have "r \<notin> set ds'" by (auto simp: list_ex_iff)
    with w ne have "map_of (configuration s') r = map_of (configuration s) r"
      by (simp add: deletes_within_def)
    with d f nr ex show ?thesis
      by (simp add: delete_category_and_children_recursively_def)
  next
    case False
    then have "snd (delete_category_and_children_recursively depth category_name s) = s"
      by (auto simp: delete_category_and_children_recursively_def split: sum.splits)
    then show ?thesis by simp
  qed
  have deletes: "fst (delete_category_and_children_recursively depth category_name s) = None
      \<and> map_of (configuration (snd (delete_category_and_children_recursively depth category_name s)))
           category_name = None"
    if ex: "read_category_val s category_name \<noteq> JNull"
      and f: "fetch_descendents depth (category_children s) category_name = Inr ds"
      and nr: "\<not> (\<exists>r \<in> set RESERVED_CATG. r \<in> set ds)"
  proof -
    from delete_recursively_within[OF f subset_refl] obtain s' where
      d: "delete_recursively depth category_name s = (None, s')"
      and n: "map_of (configuration s') category_name = None" by blast
    from nr have "\<not> list_ex (\<lambda>catg. catg \<in> set ds) RESERVED_CATG" by (simp add: list_ex_iff)
    with d n ex f show ?thesis
      by (simp add: delete_category_and_children_recursively_def)
  qed
  from refuse keeps deletes show ?thesis by blast
qed

theorem recursive_delete_guards_reserved_descendents_witness:
  "read_category_val ex_tree ''A'' \<noteq> JNull
   \<and> fetch_descendents 1000 (category_children ex_tree) ''A'' = Inr [''B'', ''SCHEDULER'']
   \<and> ''SCHEDULER'' \<in> set RESERVED_CATG
   \<and> delete_category_and_children_recursively 1000 ''A'' ex_tree = (Some ValueError, ex_tree)
   \<and> map_of (configuration (snd (delete_category_and_children_recursively 1000 ''A'' ex_tree)))
        ''SCHEDULER'' = Some ex_row"
proof -
  have e: "read_category_val ex_tree ''A'' \<noteq> JNull"
    by (simp add: read_category_val_def ex_tree_def empty_manager_def ex_row_def)
  have f: "fetch_descendents 1000 (category_children ex_tree) ''A'' = Inr [''B'', ''SCHEDULER'']"
    by code_simp
  have r: "''SCHEDULER'' \<in> set RESERVED_CATG" by (simp add: RESERVED_CATG_def)
  have m: "map_of (configuration ex_tree) ''SCHEDULER'' = Some ex_row"
    by (simp add: ex_tree_def empty_manager_def)
  have x: "\<exists>r \<in> set RESERVED_CATG. r \<in> set [''B'', ''SCHEDULER'']" using r by auto
  from recursive_delete_guards_reserved_descendents[of ex_tree "''A''" 1000 "[''B'', ''SCHEDULER'']"]
    e f r m x
  show ?thesis by simp
qed

subsection \<open>Validation in closed form\<close>













subsection \<open>A prepared item validates again\<close>












subsection \<open>A prepared category validates again and merges with itself\<close>









subsection \<open>Creating a category twice\<close>








end
